theory Spec2Isabelle
  imports Main "HOL-Library.AList" "HOL-Library.Sublist"
begin

section \<open>JavaScript values and objects\<close>

text \<open>
  The template model and the generated component work on plain JavaScript data:
  element objects, style objects, the data map. A value is one of the JSON-like
  shapes below, none of which can be called as a function. Numbers are integers, as
  the presets and the editor's \<open>parseInt\<close> produce them; fractions are not
  modelled. An object is its list of own properties in insertion order, each name
  occurring once (\<open>wf_obj\<close>) and none of them an array index. Strings are lists of
  characters, read as ASCII text.
\<close>

datatype jsval = JUndefined | JNull | JBool bool | JNum int | JStr string
  | JArr "jsval list" | JObj "(string \<times> jsval) list"

type_synonym obj = "(string \<times> jsval) list"

definition wf_obj :: "obj \<Rightarrow> bool" where
  "wf_obj ob = distinct (map fst ob)"

text \<open>Property read \<open>ob.k\<close> on an object without inherited property of that name.\<close>

definition get :: "obj \<Rightarrow> string \<Rightarrow> jsval" where
  "get ob k = (case map_of ob k of Some v \<Rightarrow> v | None \<Rightarrow> JUndefined)"

text \<open>
  \<open>Object.assign(target, source)\<close> and the object spread \<open>{...target, ...source}\<close>:
  each property of the source is written to the target in the source's order; an
  existing name keeps its position and takes the new value, a new name is appended.
\<close>

definition assign :: "obj \<Rightarrow> obj \<Rightarrow> obj" where
  "assign target source = fold (\<lambda>kv acc. AList.update (fst kv) (snd kv) acc) source target"

text \<open>ToBoolean, as used by \<open>||\<close>, \<open>!\<close> and \<open>if\<close>.\<close>

fun truthy :: "jsval \<Rightarrow> bool" where
  "truthy JUndefined = False"
| "truthy JNull = False"
| "truthy (JBool b) = b"
| "truthy (JNum n) = (n \<noteq> 0)"
| "truthy (JStr s) = (s \<noteq> [])"
| "truthy (JArr vs) = True"
| "truthy (JObj kvs) = True"

text \<open>
  Operations that can raise return the exception or the result. The only exception
  that the modelled code raises is a TypeError.
\<close>

datatype error = TypeError

definition andThen :: "error + 'a \<Rightarrow> ('a \<Rightarrow> error + 'b) \<Rightarrow> error + 'b" where
  "andThen r f = (case r of Inl e \<Rightarrow> Inl e | Inr x \<Rightarrow> f x)"

fun collect :: "(error + 'a) list \<Rightarrow> error + 'a list" where
  "collect [] = Inr []"
| "collect (r # rs) =
    (case r of
       Inl e \<Rightarrow> Inl e
     | Inr x \<Rightarrow> (case collect rs of Inl e \<Rightarrow> Inl e | Inr xs \<Rightarrow> Inr (x # xs)))"

fun digits :: "nat \<Rightarrow> string" where
  "digits n = (if n < 10 then [char_of (48 + n)]
     else digits (n div 10) @ [char_of (48 + n mod 10)])"

text \<open>
  Number to string, for an integer: plain decimal notation up to 21 digits, exponent
  notation from 1e21 on (\<open>1e+21\<close>, \<open>1.5e+21\<close>). From there on a number is given in
  the model by the integer that has the digits of its shortest decimal form.
\<close>

definition exponentForm :: "string \<Rightarrow> string" where
  "exponentForm ds =
    (case rev (dropWhile (\<lambda>c. c = CHR ''0'') (rev ds)) of
       [] \<Rightarrow> []
     | c # cs \<Rightarrow> (if cs = [] then [c] else c # CHR ''.'' # cs))
    @ ''e+'' @ digits (length ds - 1)"

definition showNat :: "nat \<Rightarrow> string" where
  "showNat n = (if length (digits n) \<le> 21 then digits n else exponentForm (digits n))"

definition showInt :: "int \<Rightarrow> string" where
  "showInt n = (if n < 0 then CHR ''-'' # showNat (nat (- n)) else showNat (nat n))"

fun join :: "string \<Rightarrow> string list \<Rightarrow> string" where
  "join sep [] = []"
| "join sep [x] = x"
| "join sep (x # y # ys) = x @ sep @ join sep (y # ys)"

text \<open>
  ToString, as applied by template literals and by \<open>String.prototype.replace\<close> to the
  value its callback returns. For an object it calls the object's \<open>toString\<close>: the
  inherited one gives \<open>[object Object]\<close>; an own property of that name holds data,
  which cannot be called, and the conversion raises. An array joins the conversions
  of its elements, with nothing for \<open>null\<close> and \<open>undefined\<close>.
\<close>

fun toStringJS :: "jsval \<Rightarrow> error + string" where
  "toStringJS JUndefined = Inr ''undefined''"
| "toStringJS JNull = Inr ''null''"
| "toStringJS (JBool b) = Inr (if b then ''true'' else ''false'')"
| "toStringJS (JNum n) = Inr (showInt n)"
| "toStringJS (JStr s) = Inr s"
| "toStringJS (JArr vs) =
     (case collect (map (\<lambda>v. case v of JUndefined \<Rightarrow> Inr [] | JNull \<Rightarrow> Inr []
                                   | _ \<Rightarrow> toStringJS v) vs) of
        Inl e \<Rightarrow> Inl e
      | Inr ts \<Rightarrow> Inr (join '','' ts))"
| "toStringJS (JObj kvs) =
     (if map_of kvs ''toString'' \<noteq> None then Inl TypeError else Inr ''[object Object]'')"

definition convertible :: "jsval \<Rightarrow> bool" where
  "convertible v = (case toStringJS v of Inl e \<Rightarrow> False | Inr t \<Rightarrow> True)"

text \<open>\<open>Object.entries(v)\<close>: own enumerable properties; an array or a string is
  indexed by position, a number or boolean has none.\<close>

fun entries :: "jsval \<Rightarrow> (string \<times> jsval) list" where
  "entries (JObj kvs) = kvs"
| "entries (JArr vs) = map (\<lambda>i. (digits i, vs ! i)) [0..<length vs]"
| "entries (JStr s) = map (\<lambda>i. (digits i, JStr [s ! i])) [0..<length s]"
| "entries v = []"

subsection \<open>JSON.stringify\<close>

definition hexdigit :: "nat \<Rightarrow> char" where
  "hexdigit n = (if n < 10 then char_of (48 + n) else char_of (87 + n))"

definition json_char :: "char \<Rightarrow> string" where
  "json_char c =
    (if c = CHR 0x22 then [CHR 0x5C, CHR 0x22]
     else if c = CHR 0x5C then [CHR 0x5C, CHR 0x5C]
     else if c = CHR 0x08 then [CHR 0x5C, CHR ''b'']
     else if c = CHR 0x09 then [CHR 0x5C, CHR ''t'']
     else if c = CHR 0x0A then [CHR 0x5C, CHR ''n'']
     else if c = CHR 0x0C then [CHR 0x5C, CHR ''f'']
     else if c = CHR 0x0D then [CHR 0x5C, CHR ''r'']
     else if (of_char c :: nat) < 32
       then [CHR 0x5C, CHR ''u'', CHR ''0'', CHR ''0'',
             hexdigit (of_char c div 16), hexdigit (of_char c mod 16)]
     else [c])"

definition json_quote :: "string \<Rightarrow> string" where
  "json_quote s = [CHR 0x22] @ concat (map json_char s) @ [CHR 0x22]"

text \<open>\<open>None\<close> is the result \<open>undefined\<close>: a property holding it is left out of an
  object, an array slot holding it is written \<open>null\<close>.\<close>

fun stringify :: "jsval \<Rightarrow> string option" where
  "stringify JUndefined = None"
| "stringify JNull = Some ''null''"
| "stringify (JBool b) = Some (if b then ''true'' else ''false'')"
| "stringify (JNum n) = Some (showInt n)"
| "stringify (JStr s) = Some (json_quote s)"
| "stringify (JArr vs) = Some (''['' @ join '',''
     (map (\<lambda>v. case stringify v of None \<Rightarrow> ''null'' | Some t \<Rightarrow> t) vs) @ '']'')"
| "stringify (JObj kvs) = Some (''{'' @ join '',''
     (concat (map (\<lambda>kv. case stringify (snd kv) of None \<Rightarrow> []
                          | Some t \<Rightarrow> [json_quote (fst kv) @ '':'' @ t]) kvs)) @ ''}'')"

definition JSON_stringify :: "jsval \<Rightarrow> string" where
  "JSON_stringify v = (case stringify v of None \<Rightarrow> ''undefined'' | Some t \<Rightarrow> t)"

section \<open>Naming helpers\<close>

definition is_upper :: "char \<Rightarrow> bool" where
  "is_upper c = (65 \<le> (of_char c :: nat) \<and> (of_char c :: nat) \<le> 90)"

definition is_lower :: "char \<Rightarrow> bool" where
  "is_lower c = (97 \<le> (of_char c :: nat) \<and> (of_char c :: nat) \<le> 122)"

definition is_digit :: "char \<Rightarrow> bool" where
  "is_digit c = (48 \<le> (of_char c :: nat) \<and> (of_char c :: nat) \<le> 57)"

definition is_word :: "char \<Rightarrow> bool" where
  "is_word c = (is_upper c \<or> is_lower c \<or> is_digit c \<or> c = CHR ''_'')"

definition lowerChar :: "char \<Rightarrow> char" where
  "lowerChar c = (if is_upper c then char_of ((of_char c :: nat) + 32) else c)"

definition upperChar :: "char \<Rightarrow> char" where
  "upperChar c = (if is_lower c then char_of ((of_char c :: nat) - 32) else c)"

definition toLowerCase :: "string \<Rightarrow> string" where
  "toLowerCase s = map lowerChar s"

text \<open>
  \<open>str.replace(/([a-z0-9]|(?=[A-Z]))([A-Z])/g, '$1-$2')\<close>, scanning left to right.
  At a position the first alternative takes a lowercase letter or digit followed by
  an uppercase letter; failing that, the second alternative (an empty group guarded
  by a lookahead) takes an uppercase letter alone. A match is rewritten with a hyphen
  between its two groups and the scan resumes after it.
\<close>

fun kebabReplace :: "string \<Rightarrow> string" where
  "kebabReplace [] = []"
| "kebabReplace [c] = (if is_upper c then [CHR ''-'', c] else [c])"
| "kebabReplace (c # d # cs) =
    (if (is_lower c \<or> is_digit c) \<and> is_upper d then c # CHR ''-'' # d # kebabReplace cs
     else if is_upper c then CHR ''-'' # c # kebabReplace (d # cs)
     else c # kebabReplace (d # cs))"

definition kebabCase :: "string \<Rightarrow> string" where
  "kebabCase str = toLowerCase (kebabReplace str)"

text \<open>
  The reference algorithm, in the words of the specification: a hyphen before each
  uppercase letter that is preceded by a lowercase letter or digit, then lowercase.
\<close>

fun hyphenateAfterLower :: "string \<Rightarrow> string" where
  "hyphenateAfterLower [] = []"
| "hyphenateAfterLower [c] = [c]"
| "hyphenateAfterLower (c # d # cs) =
    (if (is_lower c \<or> is_digit c) \<and> is_upper d then c # CHR ''-'' # hyphenateAfterLower (d # cs)
     else c # hyphenateAfterLower (d # cs))"

definition kebabReference :: "string \<Rightarrow> string" where
  "kebabReference str = toLowerCase (hyphenateAfterLower str)"

text \<open>The keys on which the two agree: every uppercase letter has a lowercase letter
  or digit before it.\<close>

fun upperOnlyAfterLower :: "string \<Rightarrow> bool" where
  "upperOnlyAfterLower [] = True"
| "upperOnlyAfterLower [c] = True"
| "upperOnlyAfterLower (c # d # cs) =
    ((is_upper d \<longrightarrow> is_lower c \<or> is_digit c) \<and> upperOnlyAfterLower (d # cs))"

definition camelKey :: "string \<Rightarrow> bool" where
  "camelKey s = ((case s of [] \<Rightarrow> True | c # _ \<Rightarrow> \<not> is_upper c) \<and> upperOnlyAfterLower s)"

definition hyphenateEveryUpper :: "string \<Rightarrow> string" where
  "hyphenateEveryUpper s = concat (map (\<lambda>c. if is_upper c then [CHR ''-'', c] else [c]) s)"

text \<open>\<open>str.replace(/-([a-z])/g, g => g[1].toUpperCase()).replace(/^[a-z]/, g => g.toUpperCase())\<close>\<close>

fun dashToUpper :: "string \<Rightarrow> string" where
  "dashToUpper [] = []"
| "dashToUpper [c] = [c]"
| "dashToUpper (c # d # cs) =
    (if c = CHR ''-'' \<and> is_lower d then upperChar d # dashToUpper cs
     else c # dashToUpper (d # cs))"

definition toCamelCase :: "string \<Rightarrow> string" where
  "toCamelCase str = (case dashToUpper str of [] \<Rightarrow> [] | c # cs \<Rightarrow> upperChar c # cs)"

definition is_space :: "char \<Rightarrow> bool" where
  "is_space c = (c = CHR '' '' \<or> (9 \<le> (of_char c :: nat) \<and> (of_char c :: nat) \<le> 13))"

definition trim :: "string \<Rightarrow> string" where
  "trim s = rev (dropWhile is_space (rev (dropWhile is_space s)))"

section \<open>Content interpolation\<close>

text \<open>
  The pattern \<open>/\{\{(\w+)\}\}/\<close> tried at the head of a string: two opening braces,
  the longest run of word characters (at least one), two closing braces. Giving back
  word characters cannot help the match, since the next character must be a brace.
\<close>

definition matchPlaceholder :: "string \<Rightarrow> string option" where
  "matchPlaceholder s =
    (case s of
       c1 # c2 # rest \<Rightarrow>
         if c1 = CHR ''{'' \<and> c2 = CHR ''{''
         then (let key = takeWhile is_word rest; after = dropWhile is_word rest
               in if key \<noteq> [] \<and> take 2 after = ''}}'' then Some key else None)
         else None
     | _ \<Rightarrow> None)"

definition placeholder :: "string \<Rightarrow> string" where
  "placeholder key = ''{{'' @ key @ ''}}''"

text \<open>
  The callback \<open>(match, key) => this.data[key] || match\<close>. The data map is an
  ordinary object, so a name it does not hold itself is looked up on
  \<open>Object.prototype\<close>; \<open>inherited\<close> gives, for such a name (\<open>constructor\<close>,
  \<open>toString\<close>, ...), the text the inherited value converts to. That text is fixed by
  the JavaScript engine, not by this program, and is a parameter here.
\<close>

definition substitute :: "(string \<Rightarrow> string option) \<Rightarrow> obj \<Rightarrow> string \<Rightarrow> error + string" where
  "substitute inherited data key =
    (case map_of data key of
       Some v \<Rightarrow> if truthy v then toStringJS v else Inr (placeholder key)
     | None \<Rightarrow> (case inherited key of Some txt \<Rightarrow> Inr txt | None \<Rightarrow> Inr (placeholder key)))"

text \<open>\<open>content.replace(/\{\{(\w+)\}\}/g, callback)\<close>: after a match of
  \<open>length key + 4\<close> characters the scan resumes behind it. The callback is called
  for the matches from left to right; what it raises, \<open>replace\<close> raises.\<close>

fun interpolateContent ::
  "(string \<Rightarrow> string option) \<Rightarrow> obj \<Rightarrow> string \<Rightarrow> error + string" where
  "interpolateContent inherited data [] = Inr []"
| "interpolateContent inherited data (c # cs) =
    (case matchPlaceholder (c # cs) of
       Some key \<Rightarrow>
         andThen (substitute inherited data key) (\<lambda>value.
         andThen (interpolateContent inherited data (drop (length key + 3) cs)) (\<lambda>r.
           Inr (value @ r)))
     | None \<Rightarrow> andThen (interpolateContent inherited data cs) (\<lambda>r. Inr (c # r)))"

definition wordKey :: "string \<Rightarrow> bool" where
  "wordKey key = (key \<noteq> [] \<and> list_all is_word key)"

section \<open>Template model\<close>

record property =
  ptype :: string
  ptitle :: string
  pdefault :: jsval

record action =
  action_id :: string
  action_name :: string
  action_description :: string

record manifest =
  schema_uri :: string
  manifest_id :: string
  version :: string
  manifest_name :: string
  description :: string
  author_name :: string
  author_email :: string
  main :: string
  schema_type :: string
  properties :: "(string \<times> property) list"
  supportsRealTime :: bool
  supportsNonRealTime :: bool
  stepCount :: "int option"
  customActions :: "action list option"

record template =
  manifest :: manifest
  elements :: "obj list"
  webComponent :: "string option"
  animationSettings :: "obj option"

definition newTemplate :: template where
  "newTemplate = \<lparr>
     manifest = \<lparr>
       schema_uri = ''https://ograf.ebu.io/v1/specification/json-schemas/graphics/schema.json'',
       manifest_id = [],
       version = ''1.0.0'',
       manifest_name = [],
       description = [],
       author_name = ''OGraf Editor'',
       author_email = [],
       main = ''template.mjs'',
       schema_type = ''object'',
       properties = [],
       supportsRealTime = True,
       supportsNonRealTime = False,
       stepCount = None,
       customActions = None \<rparr>,
     elements = [],
     webComponent = None,
     animationSettings = None \<rparr>"

definition slideActions :: "string \<Rightarrow> string \<Rightarrow> action list" where
  "slideActions din dout =
    [\<lparr>action_id = ''slideIn'', action_name = ''Slide In'', action_description = din\<rparr>,
     \<lparr>action_id = ''slideOut'', action_name = ''Slide Out'', action_description = dout\<rparr>]"

definition stringProperty :: "string \<Rightarrow> string \<Rightarrow> property" where
  "stringProperty t d = \<lparr>ptype = ''string'', ptitle = t, pdefault = JStr d\<rparr>"

definition shape :: "string \<Rightarrow> string \<Rightarrow> int \<Rightarrow> int \<Rightarrow> int \<Rightarrow> int \<Rightarrow> obj" where
  "shape i ty x y w h =
    [(''id'', JStr i), (''type'', JStr ty), (''x'', JNum x), (''y'', JNum y),
     (''width'', JNum w), (''height'', JNum h)]"

definition setupLowerThird :: "template \<Rightarrow> template" where
  "setupLowerThird t = t\<lparr>
     manifest := (manifest t)\<lparr>
       stepCount := Some 1,
       customActions := Some (slideActions
         ''Animate the lower third sliding in from the left''
         ''Animate the lower third sliding out to the left''),
       properties := [(''name'', stringProperty ''Name'' ''John Doe''),
                      (''title'', stringProperty ''Title'' ''Reporter'')]\<rparr>,
     elements :=
       [shape ''background'' ''rect'' 50 450 400 80 @
          [(''style'', JObj [(''backgroundColor'', JStr ''rgba(0, 120, 204, 0.9)''),
                             (''borderRadius'', JStr ''4px'')])],
        shape ''name'' ''text'' 70 460 360 30 @
          [(''content'', JStr ''{{name}}''),
           (''style'', JObj [(''fontSize'', JStr ''24px''),
                             (''fontFamily'', JStr ''Arial, sans-serif''),
                             (''fontWeight'', JStr ''bold''),
                             (''color'', JStr ''#ffffff''),
                             (''textAlign'', JStr ''left'')])],
        shape ''title'' ''text'' 70 490 360 25 @
          [(''content'', JStr ''{{title}}''),
           (''style'', JObj [(''fontSize'', JStr ''16px''),
                             (''fontFamily'', JStr ''Arial, sans-serif''),
                             (''color'', JStr ''#ffffff''),
                             (''textAlign'', JStr ''left'')])]]\<rparr>"

definition setupTitle :: "template \<Rightarrow> template" where
  "setupTitle t = t\<lparr>
     manifest := (manifest t)\<lparr>
       stepCount := Some 1,
       customActions := Some (slideActions
         ''Animate the title sliding in'' ''Animate the title sliding out''),
       properties := [(''title'', stringProperty ''Title Text'' ''Breaking News''),
                      (''subtitle'', stringProperty ''Subtitle'' [])]\<rparr>,
     elements :=
       [shape ''background'' ''rect'' 100 200 600 120 @
          [(''style'', JObj [(''backgroundColor'', JStr ''rgba(220, 20, 20, 0.9)''),
                             (''borderRadius'', JStr ''8px'')])],
        shape ''title'' ''text'' 120 220 560 50 @
          [(''content'', JStr ''{{title}}''),
           (''style'', JObj [(''fontSize'', JStr ''36px''),
                             (''fontFamily'', JStr ''Arial, sans-serif''),
                             (''fontWeight'', JStr ''bold''),
                             (''color'', JStr ''#ffffff''),
                             (''textAlign'', JStr ''center'')])],
        shape ''subtitle'' ''text'' 120 270 560 30 @
          [(''content'', JStr ''{{subtitle}}''),
           (''style'', JObj [(''fontSize'', JStr ''18px''),
                             (''fontFamily'', JStr ''Arial, sans-serif''),
                             (''color'', JStr ''#ffffff''),
                             (''textAlign'', JStr ''center'')])]]\<rparr>"

definition setupBug :: "template \<Rightarrow> template" where
  "setupBug t = t\<lparr>
     manifest := (manifest t)\<lparr>
       stepCount := Some 1,
       customActions := Some (slideActions
         ''Animate the bug sliding in'' ''Animate the bug sliding out''),
       properties := [(''logo'', stringProperty ''Logo URL'' [])]\<rparr>,
     elements :=
       [shape ''background'' ''circle'' 50 50 80 80 @
          [(''style'', JObj [(''backgroundColor'', JStr ''rgba(0, 0, 0, 0.8)''),
                             (''border'', JStr ''2px solid #ffffff'')])],
        shape ''logo'' ''image'' 60 60 60 60 @
          [(''content'', JStr ''{{logo}}''),
           (''style'', JObj [(''objectFit'', JStr ''contain'')])]]\<rparr>"

definition setupCustom :: "template \<Rightarrow> template" where
  "setupCustom t = t\<lparr>
     manifest := (manifest t)\<lparr>
       stepCount := Some 1,
       customActions := Some (slideActions
         ''Animate the graphic sliding in'' ''Animate the graphic sliding out''),
       properties := [(''text'', stringProperty ''Text'' ''Custom Text'')]\<rparr>,
     elements :=
       [shape ''text'' ''text'' 100 100 200 50 @
          [(''content'', JStr ''{{text}}''),
           (''style'', JObj [(''fontSize'', JStr ''20px''),
                             (''fontFamily'', JStr ''Arial, sans-serif''),
                             (''color'', JStr ''#ffffff''),
                             (''textAlign'', JStr ''left'')])]]\<rparr>"

definition createFromType :: "string \<Rightarrow> string \<Rightarrow> string \<Rightarrow> string \<Rightarrow> template" where
  "createFromType type ident nm descr =
    (let t = newTemplate\<lparr>manifest := (manifest newTemplate)
                \<lparr>manifest_id := ident, manifest_name := nm, description := descr\<rparr>\<rparr>
     in if type = ''lower-third'' then setupLowerThird t
        else if type = ''title'' then setupTitle t
        else if type = ''bug'' then setupBug t
        else setupCustom t)"

subsection \<open>Mutators\<close>

definition addProperty :: "string \<Rightarrow> string \<Rightarrow> string \<Rightarrow> jsval \<Rightarrow> template \<Rightarrow> template" where
  "addProperty nm ty ti defaultValue t = t\<lparr>manifest := (manifest t)\<lparr>properties :=
     AList.update nm \<lparr>ptype = ty, ptitle = ti, pdefault = defaultValue\<rparr>
       (properties (manifest t))\<rparr>\<rparr>"

definition removeProperty :: "string \<Rightarrow> template \<Rightarrow> template" where
  "removeProperty nm t =
     t\<lparr>manifest := (manifest t)\<lparr>properties := AList.delete nm (properties (manifest t))\<rparr>\<rparr>"

text \<open>\<open>this.elements.push({ id: `element_${Date.now()}`, ...element })\<close>; the clock
  reading \<open>now\<close> is an input.\<close>

definition addElement :: "int \<Rightarrow> obj \<Rightarrow> template \<Rightarrow> template" where
  "addElement now element t =
     t\<lparr>elements := elements t @ [assign [(''id'', JStr (''element_'' @ showInt now))] element]\<rparr>"

definition hasId :: "string \<Rightarrow> obj \<Rightarrow> bool" where
  "hasId elementId el = (get el ''id'' = JStr elementId)"

definition removeElement :: "string \<Rightarrow> template \<Rightarrow> template" where
  "removeElement elementId t = t\<lparr>elements := filter (\<lambda>el. \<not> hasId elementId el) (elements t)\<rparr>"

definition getElementById :: "string \<Rightarrow> template \<Rightarrow> obj option" where
  "getElementById elementId t = find (hasId elementId) (elements t)"

fun assignFirst :: "string \<Rightarrow> obj \<Rightarrow> obj list \<Rightarrow> obj list" where
  "assignFirst elementId updates [] = []"
| "assignFirst elementId updates (el # els) =
    (if hasId elementId el then assign el updates # els
     else el # assignFirst elementId updates els)"

definition updateElement :: "string \<Rightarrow> obj \<Rightarrow> template \<Rightarrow> template" where
  "updateElement elementId updates t =
     t\<lparr>elements := assignFirst elementId updates (elements t)\<rparr>"

subsection \<open>Text of the generated class\<close>

text \<open>
  The methods that \<open>generateWebComponent\<close> writes into every artifact, character by
  character as they leave the template literal (its escapes resolved). This part of
  the literal has no interpolation point. What the methods do when run is modelled in
  the section on the component at run time.
\<close>

definition source_connectedCallback :: string where
  \<open>source_connectedCallback =
       ''\<newline>''
     @ ''    connectedCallback() {\<newline>''
     @ ''        this.render();\<newline>''
     @ ''    }\<newline>''
     @ ''\<newline>''\<close>

definition source_load :: string where
  \<open>source_load =
       ''    async load() {\<newline>''
     @ ''        this.isVisible = false;\<newline>''
     @ ''        this.render();\<newline>''
     @ ''        return Promise.resolve();\<newline>''
     @ ''    }\<newline>''
     @ ''\<newline>''\<close>

definition source_dispose :: string where
  \<open>source_dispose =
       ''    async dispose() {\<newline>''
     @ ''        this.isVisible = false;\<newline>''
     @ ''        this.shadowRoot.innerHTML = '' @ [CHR 0x27, CHR 0x27] @ '';\<newline>''
     @ ''        return Promise.resolve();\<newline>''
     @ ''    }\<newline>''
     @ ''\<newline>''\<close>

definition source_playAction :: string where
  \<open>source_playAction =
       ''    async playAction(skipAnimation = false) {\<newline>''
     @ ''        this.isVisible = true;\<newline>''
     @ ''        this.render();\<newline>''
     @ ''        \<newline>''
     @ ''        if (!skipAnimation) {\<newline>''
     @ ''            // Wait for render to complete before starting animation\<newline>''
     @ ''            await new Promise(resolve => requestAnimationFrame(resolve));\<newline>''
     @ ''            // Trigger slide-in animation for lower third\<newline>''
     @ ''            await this.customAction('' @ [CHR 0x27] @ ''slideIn'' @ [CHR 0x27] @ '');\<newline>''
     @ ''        }\<newline>''
     @ ''        \<newline>''
     @ ''        return Promise.resolve();\<newline>''
     @ ''    }\<newline>''
     @ ''\<newline>''\<close>

definition source_stopAction :: string where
  \<open>source_stopAction =
       ''    async stopAction(skipAnimation = false) {\<newline>''
     @ ''        if (!skipAnimation) {\<newline>''
     @ ''            // Trigger slide-out animation before hiding\<newline>''
     @ ''            await this.customAction('' @ [CHR 0x27] @ ''slideOut'' @ [CHR 0x27] @ '');\<newline>''
     @ ''        }\<newline>''
     @ ''        \<newline>''
     @ ''        this.isVisible = false;\<newline>''
     @ ''        \<newline>''
     @ ''        // Completely clear the shadow DOM - back to empty state\<newline>''
     @ ''        this.shadowRoot.innerHTML = '' @ [CHR 0x27, CHR 0x27] @ '';\<newline>''
     @ ''        return Promise.resolve();\<newline>''
     @ ''    }\<newline>''
     @ ''\<newline>''\<close>

definition source_updateAction :: string where
  \<open>source_updateAction =
       ''    async updateAction(data) {\<newline>''
     @ ''        this.data = { ...this.data, ...data };\<newline>''
     @ ''        this.render();\<newline>''
     @ ''        return Promise.resolve();\<newline>''
     @ ''    }\<newline>''
     @ ''\<newline>''\<close>

definition source_customAction :: string where
  \<open>source_customAction =
       ''    async customAction(action, data) {\<newline>''
     @ ''        switch (action) {\<newline>''
     @ ''            case '' @ [CHR 0x27] @ ''slideIn'' @ [CHR 0x27] @ '':\<newline>''
     @ ''                return this.animateSlideIn();\<newline>''
     @ ''            case '' @ [CHR 0x27] @ ''slideOut'' @ [CHR 0x27] @ '':\<newline>''
     @ ''                return this.animateSlideOut();\<newline>''
     @ ''            default:\<newline>''
     @ ''                return Promise.resolve();\<newline>''
     @ ''        }\<newline>''
     @ ''    }\<newline>''
     @ ''    \<newline>''\<close>

definition source_animateSlideIn :: string where
  \<open>source_animateSlideIn =
       ''    animateSlideIn() {\<newline>''
     @ ''        return new Promise((resolve) => {\<newline>''
     @ ''            const settings = this.animationSettings || {\<newline>''
     @ ''                slideInDuration: 500,\<newline>''
     @ ''                slideInType: '' @ [CHR 0x27] @ ''ease-out'' @ [CHR 0x27] @ '',\<newline>''
     @ ''                slideInDirection: '' @ [CHR 0x27] @ ''left'' @ [CHR 0x27] @ ''\<newline>''
     @ ''            };\<newline>''
     @ ''            \<newline>''
     @ ''            const elements = this.shadowRoot.querySelectorAll('' @ [CHR 0x27] @ ''.element'' @ [CHR 0x27] @ '');\<newline>''
     @ ''            if (elements.length === 0) {\<newline>''
     @ ''                resolve();\<newline>''
     @ ''                return;\<newline>''
     @ ''            }\<newline>''
     @ ''            \<newline>''
     @ ''            const duration = settings.slideInDuration;\<newline>''
     @ ''            const timing = settings.slideInType;\<newline>''
     @ ''            const direction = settings.slideInDirection;\<newline>''
     @ ''            \<newline>''
     @ ''            let transform = '' @ [CHR 0x27, CHR 0x27] @ '';\<newline>''
     @ ''            switch (direction) {\<newline>''
     @ ''                case '' @ [CHR 0x27] @ ''left'' @ [CHR 0x27] @ '': transform = '' @ [CHR 0x27] @ ''translateX(-100%)'' @ [CHR 0x27] @ ''; break;\<newline>''
     @ ''                case '' @ [CHR 0x27] @ ''right'' @ [CHR 0x27] @ '': transform = '' @ [CHR 0x27] @ ''translateX(100%)'' @ [CHR 0x27] @ ''; break;\<newline>''
     @ ''                case '' @ [CHR 0x27] @ ''top'' @ [CHR 0x27] @ '': transform = '' @ [CHR 0x27] @ ''translateY(-100%)'' @ [CHR 0x27] @ ''; break;\<newline>''
     @ ''                case '' @ [CHR 0x27] @ ''bottom'' @ [CHR 0x27] @ '': transform = '' @ [CHR 0x27] @ ''translateY(100%)'' @ [CHR 0x27] @ ''; break;\<newline>''
     @ ''                default: transform = '' @ [CHR 0x27] @ ''translateX(-100%)'' @ [CHR 0x27] @ '';\<newline>''
     @ ''            }\<newline>''
     @ ''            \<newline>''
     @ ''            elements.forEach(element => {\<newline>''
     @ ''                // Set initial position before animation\<newline>''
     @ ''                element.style.transform = transform;\<newline>''
     @ ''                element.style.transition = '' @ [CHR 0x27] @ ''none'' @ [CHR 0x27] @ '';\<newline>''
     @ ''            });\<newline>''
     @ ''            \<newline>''
     @ ''            // Force a reflow to ensure the initial transform is applied\<newline>''
     @ ''            this.shadowRoot.offsetHeight;\<newline>''
     @ ''            \<newline>''
     @ ''            elements.forEach(element => {\<newline>''
     @ ''                element.style.transition = `transform ${duration}ms ${timing}`;\<newline>''
     @ ''                \<newline>''
     @ ''                // Trigger animation\<newline>''
     @ ''                requestAnimationFrame(() => {\<newline>''
     @ ''                    element.style.transform = '' @ [CHR 0x27] @ ''translateX(0) translateY(0)'' @ [CHR 0x27] @ '';\<newline>''
     @ ''                });\<newline>''
     @ ''            });\<newline>''
     @ ''            \<newline>''
     @ ''            // Resolve after animation completes\<newline>''
     @ ''            setTimeout(resolve, duration);\<newline>''
     @ ''        });\<newline>''
     @ ''    }\<newline>''
     @ ''    \<newline>''\<close>

definition source_animateSlideOut :: string where
  \<open>source_animateSlideOut =
       ''    animateSlideOut() {\<newline>''
     @ ''        return new Promise((resolve) => {\<newline>''
     @ ''            const settings = this.animationSettings || {\<newline>''
     @ ''                slideOutDuration: 500,\<newline>''
     @ ''                slideOutType: '' @ [CHR 0x27] @ ''ease-in'' @ [CHR 0x27] @ '',\<newline>''
     @ ''                slideOutDirection: '' @ [CHR 0x27] @ ''left'' @ [CHR 0x27] @ ''\<newline>''
     @ ''            };\<newline>''
     @ ''            \<newline>''
     @ ''            const elements = this.shadowRoot.querySelectorAll('' @ [CHR 0x27] @ ''.element'' @ [CHR 0x27] @ '');\<newline>''
     @ ''            if (elements.length === 0) {\<newline>''
     @ ''                resolve();\<newline>''
     @ ''                return;\<newline>''
     @ ''            }\<newline>''
     @ ''            \<newline>''
     @ ''            const duration = settings.slideOutDuration;\<newline>''
     @ ''            const timing = settings.slideOutType;\<newline>''
     @ ''            const direction = settings.slideOutDirection || settings.slideInDirection || '' @ [CHR 0x27] @ ''left'' @ [CHR 0x27] @ '';\<newline>''
     @ ''            \<newline>''
     @ ''            let transform = '' @ [CHR 0x27, CHR 0x27] @ '';\<newline>''
     @ ''            switch (direction) {\<newline>''
     @ ''                case '' @ [CHR 0x27] @ ''left'' @ [CHR 0x27] @ '': transform = '' @ [CHR 0x27] @ ''translateX(-100%)'' @ [CHR 0x27] @ ''; break;\<newline>''
     @ ''                case '' @ [CHR 0x27] @ ''right'' @ [CHR 0x27] @ '': transform = '' @ [CHR 0x27] @ ''translateX(100%)'' @ [CHR 0x27] @ ''; break;\<newline>''
     @ ''                case '' @ [CHR 0x27] @ ''top'' @ [CHR 0x27] @ '': transform = '' @ [CHR 0x27] @ ''translateY(-100%)'' @ [CHR 0x27] @ ''; break;\<newline>''
     @ ''                case '' @ [CHR 0x27] @ ''bottom'' @ [CHR 0x27] @ '': transform = '' @ [CHR 0x27] @ ''translateY(100%)'' @ [CHR 0x27] @ ''; break;\<newline>''
     @ ''                default: transform = '' @ [CHR 0x27] @ ''translateX(-100%)'' @ [CHR 0x27] @ '';\<newline>''
     @ ''            }\<newline>''
     @ ''            \<newline>''
     @ ''            elements.forEach(element => {\<newline>''
     @ ''                element.style.transition = `transform ${duration}ms ${timing}`;\<newline>''
     @ ''                element.style.transform = transform;\<newline>''
     @ ''            });\<newline>''
     @ ''            \<newline>''
     @ ''            // Resolve after animation completes\<newline>''
     @ ''            setTimeout(resolve, duration);\<newline>''
     @ ''        });\<newline>''
     @ ''    }\<newline>''
     @ ''\<newline>''\<close>

definition source_render :: string where
  \<open>source_render =
       ''    render() {\<newline>''
     @ ''        const style = `\<newline>''
     @ ''            <style>\<newline>''
     @ ''                :host {\<newline>''
     @ ''                    display: block;\<newline>''
     @ ''                    position: relative;\<newline>''
     @ ''                    width: 1920px;\<newline>''
     @ ''                    height: 1080px;\<newline>''
     @ ''                    font-family: Arial, sans-serif;\<newline>''
     @ ''                    overflow: hidden;\<newline>''
     @ ''                }\<newline>''
     @ ''                .element {\<newline>''
     @ ''                    position: absolute;\<newline>''
     @ ''                }\<newline>''
     @ ''                ${this.elementStyles}\<newline>''
     @ ''            </style>\<newline>''
     @ ''        `;\<newline>''
     @ ''\<newline>''
     @ ''        const elements = this.elements.map(element => this.renderElement(element)).join('' @ [CHR 0x27, CHR 0x27] @ '');\<newline>''
     @ ''\<newline>''
     @ ''        this.shadowRoot.innerHTML = `\<newline>''
     @ ''            ${style}\<newline>''
     @ ''            <div class="container">\<newline>''
     @ ''                ${elements}\<newline>''
     @ ''            </div>\<newline>''
     @ ''        `;\<newline>''
     @ ''    }\<newline>''
     @ ''\<newline>''\<close>

definition source_renderElement :: string where
  \<open>source_renderElement =
       ''    renderElement(element) {\<newline>''
     @ ''        const content = this.interpolateContent(element.content || '' @ [CHR 0x27, CHR 0x27] @ '');\<newline>''
     @ ''        const baseStyles = `left: ${element.x}px; top: ${element.y}px; width: ${element.width}px; height: ${element.height}px;`;\<newline>''
     @ ''        \<newline>''
     @ ''        // Convert element.style object to CSS string\<newline>''
     @ ''        const additionalStyles = element.style ? Object.entries(element.style)\<newline>''
     @ ''            .map(([key, value]) => `${this.kebabCase(key)}: ${value};`)\<newline>''
     @ ''            .join('' @ [CHR 0x27] @ '' '' @ [CHR 0x27] @ '') : '' @ [CHR 0x27, CHR 0x27] @ '';\<newline>''
     @ ''        \<newline>''
     @ ''        const allStyles = baseStyles + '' @ [CHR 0x27] @ '' '' @ [CHR 0x27] @ '' + additionalStyles;\<newline>''
     @ ''        \<newline>''
     @ ''        switch (element.type) {\<newline>''
     @ ''            case '' @ [CHR 0x27] @ ''text'' @ [CHR 0x27] @ '':\<newline>''
     @ ''                return `<div class="element element-${element.id}" style="${allStyles}">${content}</div>`;\<newline>''
     @ ''            case '' @ [CHR 0x27] @ ''image'' @ [CHR 0x27] @ '':\<newline>''
     @ ''                return `<img class="element element-${element.id}" src="${content}" style="${allStyles}" />`;\<newline>''
     @ ''            case '' @ [CHR 0x27] @ ''rect'' @ [CHR 0x27] @ '':\<newline>''
     @ ''            case '' @ [CHR 0x27] @ ''rectangle'' @ [CHR 0x27] @ '':\<newline>''
     @ ''                return `<div class="element element-${element.id}" style="${allStyles}"></div>`;\<newline>''
     @ ''            case '' @ [CHR 0x27] @ ''circle'' @ [CHR 0x27] @ '':\<newline>''
     @ ''                const circleStyles = allStyles + '' @ [CHR 0x27] @ '' border-radius: 50%;'' @ [CHR 0x27] @ '';\<newline>''
     @ ''                return `<div class="element element-${element.id}" style="${circleStyles}"></div>`;\<newline>''
     @ ''            default:\<newline>''
     @ ''                return '' @ [CHR 0x27, CHR 0x27] @ '';\<newline>''
     @ ''        }\<newline>''
     @ ''    }\<newline>''
     @ ''\<newline>''\<close>

definition source_interpolateContent :: string where
  \<open>source_interpolateContent =
       ''    interpolateContent(content) {\<newline>''
     @ ''        const result = content.replace(/'' @ [CHR 0x5C] @ ''{'' @ [CHR 0x5C] @ ''{('' @ [CHR 0x5C] @ ''w+)'' @ [CHR 0x5C] @ ''}'' @ [CHR 0x5C] @ ''}/g, (match, key) => {\<newline>''
     @ ''            const value = this.data[key] || match;\<newline>''
     @ ''            return value;\<newline>''
     @ ''        });\<newline>''
     @ ''        return result;\<newline>''
     @ ''    }\<newline>''
     @ ''\<newline>''\<close>

definition source_kebabCase :: string where
  \<open>source_kebabCase =
       ''    kebabCase(str) {\<newline>''
     @ ''        return str.replace(/([a-z0-9]|(?=[A-Z]))([A-Z])/g, '' @ [CHR 0x27] @ ''$1-$2'' @ [CHR 0x27] @ '').toLowerCase();\<newline>''
     @ ''    }\<newline>''
     @ ''}\<newline>''\<close>

definition classMethods :: string where
  "classMethods = concat [source_connectedCallback,
     source_load,
     source_dispose,
     source_playAction,
     source_stopAction,
     source_updateAction,
     source_customAction,
     source_animateSlideIn,
     source_animateSlideOut,
     source_render,
     source_renderElement,
     source_interpolateContent,
     source_kebabCase]"

subsection \<open>Code generator\<close>

text \<open>The declarations of one element's \<open>style\<close> object; the template literal
  converts each value to a string.\<close>

definition styleDeclarations :: "obj \<Rightarrow> error + string" where
  "styleDeclarations element =
    andThen
      (collect (map (\<lambda>kv. andThen (toStringJS (snd kv)) (\<lambda>v.
                              Inr (kebabCase (fst kv) @ '': '' @ v @ '';'')))
         (if truthy (get element ''style'') then entries (get element ''style'') else [])))
      (\<lambda>ds. Inr (join '' '' ds))"

definition generateElementStyles :: "template \<Rightarrow> error + string" where
  "generateElementStyles t =
    andThen
      (collect (map (\<lambda>element.
          andThen (styleDeclarations element) (\<lambda>styles.
          andThen (toStringJS (get element ''id'')) (\<lambda>ident.
            Inr (''.element-'' @ ident @ '' { '' @ styles @ '' }''))))
         (elements t)))
      (\<lambda>rules. Inr (join ''\<newline>'' rules))"

definition registrationLine :: "string \<Rightarrow> string" where
  "registrationLine ident =
    ''customElements.define('' @ [CHR 0x27] @ ident @ ''-graphic'' @ [CHR 0x27] @ '', ''
      @ toCamelCase ident @ ''Graphic);''"

text \<open>
  The template literal of \<open>generateWebComponent\<close>, in three pieces: up to the
  element data, from there to the registration, and the whole between the line break
  that opens the literal and the line break and indentation that close it.
\<close>

definition classHead :: "string \<Rightarrow> string" where
  "classHead ident =
    ''class '' @ toCamelCase ident @ ''Graphic extends HTMLElement {\<newline>''
    @ ''    constructor() {\<newline>''
    @ ''        super();\<newline>''
    @ ''        this.attachShadow({ mode: '' @ [CHR 0x27] @ ''open'' @ [CHR 0x27] @ '' });\<newline>''
    @ ''        this.data = {};\<newline>''
    @ ''        this.isVisible = false;\<newline>''
    @ ''        this.elements = ''"

definition classRest :: "template \<Rightarrow> string \<Rightarrow> string" where
  "classRest t elementStyles =
    '';\<newline>''
    @ ''        this.animationSettings = ''
        @ JSON_stringify (JObj (case animationSettings t of Some a \<Rightarrow> a | None \<Rightarrow> []))
        @ '';\<newline>''
    @ ''        this.elementStyles = '' @ [CHR 0x60] @ elementStyles @ [CHR 0x60] @ '';\<newline>''
    @ ''    }\<newline>''
    @ classMethods
    @ ''\<newline>'' @ registrationLine (manifest_id (manifest t))"

definition componentCode :: "template \<Rightarrow> error + string" where
  "componentCode t =
    andThen (generateElementStyles t) (\<lambda>elementStyles.
      Inr (''\<newline>'' @ classHead (manifest_id (manifest t))
        @ JSON_stringify (JArr (map JObj (elements t))) @ classRest t elementStyles
        @ ''\<newline>        ''))"

text \<open>The literal without the white space at its two ends, for given style rules.\<close>

definition artifactText :: "template \<Rightarrow> string \<Rightarrow> string" where
  "artifactText t styles =
     classHead (manifest_id (manifest t)) @ JSON_stringify (JArr (map JObj (elements t)))
       @ classRest t styles"

text \<open>\<open>generateWebComponent\<close> stores the trimmed text in the model and returns it;
  when a conversion raises, nothing is stored.\<close>

definition generateWebComponent :: "template \<Rightarrow> error + string \<times> template" where
  "generateWebComponent t =
    andThen (componentCode t) (\<lambda>code.
      let text = trim code in Inr (text, t\<lparr>webComponent := Some text\<rparr>))"

text \<open>
  How the artifact is read (the code editor's \<open>updateComponentEditor\<close>, the export):
  \<open>if (!template.webComponent) template.generateWebComponent()\<close>, then the stored
  text is taken. \<open>null\<close> and the empty string are the values \<open>!\<close> sends to true.
\<close>

definition hasComponent :: "template \<Rightarrow> bool" where
  "hasComponent t = (case webComponent t of None \<Rightarrow> False | Some w \<Rightarrow> w \<noteq> [])"

definition readComponent :: "template \<Rightarrow> error + string option \<times> template" where
  "readComponent t =
    (if \<not> hasComponent t
     then andThen (generateWebComponent t) (\<lambda>r. Inr (webComponent (snd r), snd r))
     else Inr (webComponent t, t))"

subsection \<open>Serialization\<close>

record snapshot =
  json_manifest :: manifest
  json_elements :: "obj list"
  json_webComponent :: "string option"

definition toJSON :: "template \<Rightarrow> snapshot" where
  "toJSON t = \<lparr>json_manifest = manifest t, json_elements = elements t,
               json_webComponent = webComponent t\<rparr>"

definition fromJSON :: "snapshot \<Rightarrow> template" where
  "fromJSON json = newTemplate\<lparr>manifest := json_manifest json,
                               elements := json_elements json,
                               webComponent := json_webComponent json\<rparr>"

section \<open>The generated component at run time\<close>

text \<open>
  One instance of the generated class. JavaScript runs it on a single thread: a call
  of a method runs to its first \<open>await\<close> on something not yet settled, and the rest
  of the method runs later, when the awaited timer or animation frame arrives. The
  state therefore holds, besides the fields of the object and the content of its
  shadow root, the callbacks that are waiting: \<open>timers\<close> (from \<open>setTimeout\<close>, with
  the delay argument as passed) and \<open>frames\<close> (from \<open>requestAnimationFrame\<close>).
  The code keeps no handle of a timer and never calls \<open>clearTimeout\<close>.

  An \<open>await\<close> on a promise that is already resolved continues within the same
  event, before any timer, frame or further call; the model runs it at once.
  \<open>signals\<close> records, in order, each promise returned to the caller that has settled.
\<close>

datatype operation = OpLoad | OpDispose | OpPlay | OpStop | OpUpdate | OpCustom

datatype signal = Resolved operation | Rejected operation

text \<open>What runs when the timer of a slide animation fires: the rest of the method
  that awaits the animation.\<close>

datatype completion = PlayReturn | StopTail | CustomReturn

text \<open>What runs at the next animation frame: the rest of \<open>playAction\<close>, or the
  callback that moves one element (found by the render that made it and its position
  there) to the neutral position.\<close>

datatype frameCallback = PlayResume | Neutral nat nat

text \<open>An element of class \<open>element\<close> in the shadow root, with the two inline style
  properties that the animations set.\<close>

record node =
  render_no :: nat
  position :: nat
  markup :: string
  transform :: "string option"
  transition :: "string option"

record component =
  data :: obj
  isVisible :: bool
  c_elements :: "obj list"
  c_animationSettings :: "obj option"
  elementStyles :: string
  innerHTML :: string
  nodes :: "node list"
  renders :: nat
  timers :: "(jsval \<times> completion) list"
  frames :: "frameCallback list"
  signals :: "signal list"

text \<open>The constructor; the three arguments are the values of the three literals that
  the generator wrote into it.\<close>

definition newComponent :: "obj list \<Rightarrow> obj \<Rightarrow> string \<Rightarrow> component" where
  "newComponent els settings styles = \<lparr>
     data = [], isVisible = False, c_elements = els, c_animationSettings = Some settings,
     elementStyles = styles, innerHTML = [], nodes = [], renders = 0,
     timers = [], frames = [], signals = [] \<rparr>"

subsection \<open>Rendering\<close>

definition elementTag :: "string \<Rightarrow> string \<Rightarrow> string \<Rightarrow> string \<Rightarrow> string" where
  \<open>elementTag tag ident attrs inner =
     ''<'' @ tag @ '' class="element element-'' @ ident @ ''"'' @ attrs @ inner\<close>

text \<open>\<open>renderElement\<close>. \<open>element.content || ''\<close> must be a string for
  \<open>content.replace\<close> to exist; any other truthy content raises a TypeError, and so
  does a field or a data value that cannot be converted to a string. The id is
  converted only for the four known types.\<close>

definition renderElement :: "(string \<Rightarrow> string option) \<Rightarrow> obj \<Rightarrow> obj \<Rightarrow> error + string" where
  \<open>renderElement inherited d element =
    (case (if truthy (get element ''content'') then get element ''content'' else JStr []) of
       JStr c \<Rightarrow>
         andThen (interpolateContent inherited d c) (\<lambda>content.
         andThen (toStringJS (get element ''x'')) (\<lambda>x.
         andThen (toStringJS (get element ''y'')) (\<lambda>y.
         andThen (toStringJS (get element ''width'')) (\<lambda>w.
         andThen (toStringJS (get element ''height'')) (\<lambda>h.
         andThen (styleDeclarations element) (\<lambda>additionalStyles.
           let baseStyles = ''left: '' @ x @ ''px; top: '' @ y @ ''px; width: '' @ w
                 @ ''px; height: '' @ h @ ''px;'';
               allStyles = baseStyles @ '' '' @ additionalStyles;
               ty = get element ''type''
           in if ty = JStr ''text'' then
                andThen (toStringJS (get element ''id'')) (\<lambda>ident. Inr (
                  elementTag ''div'' ident ('' style="'' @ allStyles @ ''"'')
                    (''>'' @ content @ ''</div>'')))
              else if ty = JStr ''image'' then
                andThen (toStringJS (get element ''id'')) (\<lambda>ident. Inr (
                  elementTag ''img'' ident
                    ('' src="'' @ content @ ''" style="'' @ allStyles @ ''"'') '' />''))
              else if ty = JStr ''rect'' \<or> ty = JStr ''rectangle'' then
                andThen (toStringJS (get element ''id'')) (\<lambda>ident. Inr (
                  elementTag ''div'' ident ('' style="'' @ allStyles @ ''"'') ''></div>''))
              else if ty = JStr ''circle'' then
                andThen (toStringJS (get element ''id'')) (\<lambda>ident. Inr (
                  elementTag ''div'' ident
                    ('' style="'' @ allStyles @ '' border-radius: 50%;'' @ ''"'') ''></div>''))
              else Inr []))))))
     | _ \<Rightarrow> Inl TypeError)\<close>

fun renderAll :: "(string \<Rightarrow> string option) \<Rightarrow> obj \<Rightarrow> obj list \<Rightarrow> error + string list" where
  "renderAll inherited d [] = Inr []"
| "renderAll inherited d (element # rest) =
    (case renderElement inherited d element of
       Inl e \<Rightarrow> Inl e
     | Inr m \<Rightarrow> (case renderAll inherited d rest of Inl e \<Rightarrow> Inl e | Inr ms \<Rightarrow> Inr (m # ms)))"

definition styleSheet :: "string \<Rightarrow> string" where
  "styleSheet styles =
       ''\<newline>            <style>\<newline>''
     @ ''                :host {\<newline>''
     @ ''                    display: block;\<newline>''
     @ ''                    position: relative;\<newline>''
     @ ''                    width: 1920px;\<newline>''
     @ ''                    height: 1080px;\<newline>''
     @ ''                    font-family: Arial, sans-serif;\<newline>''
     @ ''                    overflow: hidden;\<newline>''
     @ ''                }\<newline>''
     @ ''                .element {\<newline>''
     @ ''                    position: absolute;\<newline>''
     @ ''                }\<newline>''
     @ ''                '' @ styles @ ''\<newline>''
     @ ''            </style>\<newline>''
     @ ''        ''"

definition page :: "string \<Rightarrow> string list \<Rightarrow> string" where
  \<open>page styles ms =
       ''\<newline>            '' @ styleSheet styles @ ''\<newline>''
     @ ''            <div class="container">\<newline>''
     @ ''                '' @ concat ms @ ''\<newline>''
     @ ''            </div>\<newline>''
     @ ''        ''\<close>

text \<open>
  \<open>render\<close> replaces the whole content of the shadow root, so the elements it makes
  are new ones. Each element whose markup is not empty is one node of class
  \<open>element\<close>; markup inside interpolated content is not parsed by the model.
\<close>

definition makeNodes :: "nat \<Rightarrow> string list \<Rightarrow> node list" where
  "makeNodes n ms = map (\<lambda>(i, m). \<lparr>render_no = n, position = i, markup = m,
                                  transform = None, transition = None\<rparr>)
                       (zip [0..<length ms] ms)"

definition render :: "(string \<Rightarrow> string option) \<Rightarrow> component \<Rightarrow> error + component" where
  "render inherited s =
    (case renderAll inherited (data s) (c_elements s) of
       Inl e \<Rightarrow> Inl e
     | Inr ms \<Rightarrow> Inr (s\<lparr>innerHTML := page (elementStyles s) ms,
                        nodes := makeNodes (renders s) (filter (\<lambda>m. m \<noteq> []) ms),
                        renders := Suc (renders s)\<rparr>))"

definition clearShadow :: "component \<Rightarrow> component" where
  "clearShadow s = s\<lparr>innerHTML := [], nodes := []\<rparr>"

definition settle :: "signal \<Rightarrow> component \<Rightarrow> component" where
  "settle x s = s\<lparr>signals := signals s @ [x]\<rparr>"

subsection \<open>Lifecycle methods\<close>

definition load :: "(string \<Rightarrow> string option) \<Rightarrow> component \<Rightarrow> component" where
  "load inherited s =
    (let s1 = s\<lparr>isVisible := False\<rparr>
     in case render inherited s1 of
          Inl e \<Rightarrow> settle (Rejected OpLoad) s1
        | Inr s2 \<Rightarrow> settle (Resolved OpLoad) s2)"

definition dispose :: "component \<Rightarrow> component" where
  "dispose s = settle (Resolved OpDispose) (clearShadow (s\<lparr>isVisible := False\<rparr>))"

definition updateAction :: "(string \<Rightarrow> string option) \<Rightarrow> obj \<Rightarrow> component \<Rightarrow> component" where
  "updateAction inherited d s =
    (let s1 = s\<lparr>data := assign (assign [] (data s)) d\<rparr>
     in case render inherited s1 of
          Inl e \<Rightarrow> settle (Rejected OpUpdate) s1
        | Inr s2 \<Rightarrow> settle (Resolved OpUpdate) s2)"

subsection \<open>Slide animations\<close>

text \<open>The rest of each method behind its awaited animation.\<close>

fun finish :: "completion \<Rightarrow> component \<Rightarrow> component" where
  "finish PlayReturn s = settle (Resolved OpPlay) s"
| "finish StopTail s = settle (Resolved OpStop) (clearShadow (s\<lparr>isVisible := False\<rparr>))"
| "finish CustomReturn s = settle (Resolved OpCustom) s"

text \<open>When the awaited animation raises instead, the method rejects there.\<close>

fun abort :: "completion \<Rightarrow> component \<Rightarrow> component" where
  "abort PlayReturn s = settle (Rejected OpPlay) s"
| "abort StopTail s = settle (Rejected OpStop) s"
| "abort CustomReturn s = settle (Rejected OpCustom) s"

definition directionTransform :: "jsval \<Rightarrow> string" where
  "directionTransform direction =
    (if direction = JStr ''left'' then ''translateX(-100%)''
     else if direction = JStr ''right'' then ''translateX(100%)''
     else if direction = JStr ''top'' then ''translateY(-100%)''
     else if direction = JStr ''bottom'' then ''translateY(100%)''
     else ''translateX(-100%)'')"

definition transitionText :: "jsval \<Rightarrow> jsval \<Rightarrow> error + string" where
  "transitionText duration timing =
     andThen (toStringJS duration) (\<lambda>d.
     andThen (toStringJS timing) (\<lambda>t. Inr (''transform '' @ d @ ''ms '' @ t)))"

definition slideInDefaults :: obj where
  "slideInDefaults = [(''slideInDuration'', JNum 500), (''slideInType'', JStr ''ease-out''),
                      (''slideInDirection'', JStr ''left'')]"

definition slideOutDefaults :: obj where
  "slideOutDefaults = [(''slideOutDuration'', JNum 500), (''slideOutType'', JStr ''ease-in''),
                       (''slideOutDirection'', JStr ''left'')]"

text \<open>
  \<open>animateSlideIn\<close>; \<open>k\<close> is what awaits the returned promise. The first loop
  places the elements; the second builds the transition text for each element, and
  when that conversion raises, it does so at the first element, after the first loop
  and before any callback or timer is requested.
\<close>

definition animateSlideIn :: "completion \<Rightarrow> component \<Rightarrow> component" where
  "animateSlideIn k s =
    (let settings = (case c_animationSettings s of Some a \<Rightarrow> a | None \<Rightarrow> slideInDefaults)
     in if nodes s = [] then finish k s
        else
          (let duration = get settings ''slideInDuration'';
               timing = get settings ''slideInType'';
               direction = get settings ''slideInDirection'';
               tr = directionTransform direction;
               placed = map (\<lambda>n. n\<lparr>transform := Some tr, transition := Some ''none''\<rparr>) (nodes s)
           in case transitionText duration timing of
                Inl e \<Rightarrow> abort k (s\<lparr>nodes := placed\<rparr>)
              | Inr text \<Rightarrow>
                  (let armed = map (\<lambda>n. n\<lparr>transition := Some text\<rparr>) placed
                   in s\<lparr>nodes := armed,
                        frames := frames s @ map (\<lambda>n. Neutral (render_no n) (position n)) armed,
                        timers := timers s @ [(duration, k)]\<rparr>)))"

text \<open>\<open>animateSlideOut\<close>; the direction is
  \<open>settings.slideOutDirection || settings.slideInDirection || 'left'\<close>. Its single
  loop starts with the transition text, so a conversion that raises leaves the
  elements as they are.\<close>

definition animateSlideOut :: "completion \<Rightarrow> component \<Rightarrow> component" where
  "animateSlideOut k s =
    (let settings = (case c_animationSettings s of Some a \<Rightarrow> a | None \<Rightarrow> slideOutDefaults)
     in if nodes s = [] then finish k s
        else
          (let duration = get settings ''slideOutDuration'';
               timing = get settings ''slideOutType'';
               direction =
                 (if truthy (get settings ''slideOutDirection'') then get settings ''slideOutDirection''
                  else if truthy (get settings ''slideInDirection'') then get settings ''slideInDirection''
                  else JStr ''left'');
               tr = directionTransform direction
           in case transitionText duration timing of
                Inl e \<Rightarrow> abort k s
              | Inr text \<Rightarrow>
                  s\<lparr>nodes := map (\<lambda>n. n\<lparr>transition := Some text, transform := Some tr\<rparr>) (nodes s),
                    timers := timers s @ [(duration, k)]\<rparr>))"

definition customAction :: "string \<Rightarrow> component \<Rightarrow> component" where
  "customAction action s =
    (if action = ''slideIn'' then animateSlideIn CustomReturn s
     else if action = ''slideOut'' then animateSlideOut CustomReturn s
     else settle (Resolved OpCustom) s)"

text \<open>\<open>playAction\<close>: with animation, the method waits for the next animation frame
  before it starts the slide.\<close>

definition playAction :: "(string \<Rightarrow> string option) \<Rightarrow> bool \<Rightarrow> component \<Rightarrow> component" where
  "playAction inherited skipAnimation s =
    (let s1 = s\<lparr>isVisible := True\<rparr>
     in case render inherited s1 of
          Inl e \<Rightarrow> settle (Rejected OpPlay) s1
        | Inr s2 \<Rightarrow> if skipAnimation then finish PlayReturn s2
                    else s2\<lparr>frames := frames s2 @ [PlayResume]\<rparr>)"

definition stopAction :: "bool \<Rightarrow> component \<Rightarrow> component" where
  "stopAction skipAnimation s =
    (if skipAnimation then finish StopTail s else animateSlideOut StopTail s)"

subsection \<open>Events\<close>


text \<open>
  What can happen to a component: the host connects it to the document or calls a
  method, an animation frame arrives (the callbacks requested before it run in
  order), or one of the pending timers fires. \<open>Timeout i\<close> fires the timer at
  position \<open>i\<close> of the pending list and does nothing when there is none.
\<close>

datatype event = Connect | Load | Dispose | Play bool | Stop bool | Update obj
  | Custom string | Frame | Timeout nat



section \<open>Registration of the custom element\<close>

text \<open>
  The last statement of every artifact is \<open>registrationLine\<close>, a call of
  \<open>customElements.define\<close> under no condition. The registry belongs to the browser:
  \<open>define\<close> raises a SyntaxError for a name that is not a valid custom element
  name and a NotSupportedError for a name that is already registered. A registry is
  the list of registered names.
\<close>

datatype registryError = SyntaxError | NotSupportedError

text \<open>A valid custom element name, for ASCII text: a lowercase letter first, then
  lowercase letters, digits, \<open>-\<close>, \<open>.\<close> and \<open>_\<close>, with a hyphen among them. None of
  the reserved names ends in \<open>-graphic\<close>.\<close>

definition validTag :: "string \<Rightarrow> bool" where
  "validTag tag =
    (case tag of
       [] \<Rightarrow> False
     | c # cs \<Rightarrow> is_lower c
         \<and> list_all (\<lambda>x. is_lower x \<or> is_digit x \<or> x = CHR ''-'' \<or> x = CHR ''.'' \<or> x = CHR ''_'') cs
         \<and> CHR ''-'' \<in> set cs)"

text \<open>A class name the script can declare, for ASCII text: an identifier. A name
  ending in \<open>Graphic\<close> is no reserved word.\<close>

definition validClassName :: "string \<Rightarrow> bool" where
  "validClassName nm =
    (case nm of
       [] \<Rightarrow> False
     | c # cs \<Rightarrow> (is_upper c \<or> is_lower c \<or> c = CHR ''_'' \<or> c = CHR ''$'')
         \<and> list_all (\<lambda>x. is_word x \<or> x = CHR ''$'') cs)"

definition customElements_define :: "string \<Rightarrow> string list \<Rightarrow> registryError + string list" where
  "customElements_define tag registry =
    (if \<not> validTag tag then Inl SyntaxError
     else if tag \<in> set registry then Inl NotSupportedError
     else Inr (registry @ [tag]))"

definition graphicTag :: "string \<Rightarrow> string" where
  "graphicTag ident = ident @ ''-graphic''"

text \<open>
  The artifact writes the generated style rules between backquotes. They stand for
  themselves there when they hold no backquote, no backslash and no \<open>${\<close>; other
  style text changes what the script is, and the model does not say what it does.
\<close>

fun templateSafe :: "string \<Rightarrow> bool" where
  "templateSafe [] = True"
| "templateSafe [c] = (c \<noteq> CHR 0x60 \<and> c \<noteq> CHR 0x5C)"
| "templateSafe (c # d # cs) =
    (c \<noteq> CHR 0x60 \<and> c \<noteq> CHR 0x5C \<and> \<not> (c = CHR ''$'' \<and> d = CHR ''{'')
     \<and> templateSafe (d # cs))"

text \<open>The characters of a manifest id for which the model says what the script
  does: letters, digits, \<open>_\<close>, \<open>$\<close>, \<open>-\<close> and \<open>.\<close>.\<close>

definition plainIdChar :: "char \<Rightarrow> bool" where
  "plainIdChar c = (is_word c \<or> c = CHR ''$'' \<or> c = CHR ''-'' \<or> c = CHR ''.'')"

text \<open>
  Evaluating the artifact of a template, as a module or inside a function, so that
  each evaluation has a scope of its own. There is no artifact when the generator
  raises, and no account of it when the style text is not safe or the manifest id
  holds another character than these (\<open>None\<close>). Otherwise
  the script is the class declaration, which is a syntax error for a class name that
  is no identifier, followed by the call of \<open>define\<close>; when the script does not
  parse, nothing of it runs.
\<close>

definition runArtifact :: "template \<Rightarrow> string list \<Rightarrow> (registryError + string list) option" where
  "runArtifact t registry =
    (case generateElementStyles t of
       Inl e \<Rightarrow> None
     | Inr styles \<Rightarrow>
         if \<not> templateSafe styles \<or> \<not> list_all plainIdChar (manifest_id (manifest t)) then None
         else if \<not> validClassName (toCamelCase (manifest_id (manifest t)) @ ''Graphic'')
           then Some (Inl SyntaxError)
         else Some (customElements_define (graphicTag (manifest_id (manifest t))) registry))"

section \<open>Example values\<close>

text \<open>The element that \<open>addElement\<close> has just pushed.\<close>

definition appended :: "int \<Rightarrow> obj \<Rightarrow> template \<Rightarrow> obj" where
  "appended now spec t = last (elements (addElement now spec t))"

definition lowerThird :: template where
  "lowerThird = createFromType ''lower-third'' ''x'' ''Name'' ''d''"

definition rectSpec :: obj where
  "rectSpec = [(''type'', JStr ''rect''), (''x'', JNum 100), (''y'', JNum 100),
               (''width'', JNum 100), (''height'', JNum 100)]"

text \<open>The five mutators of the model, as one type of requests.\<close>

datatype mutation =
    AddElement int obj
  | RemoveElement string
  | UpdateElement string obj
  | AddProperty string string string jsval
  | RemoveProperty string

fun mutate :: "mutation \<Rightarrow> template \<Rightarrow> template" where
  "mutate (AddElement now element) t = addElement now element t"
| "mutate (RemoveElement elementId) t = removeElement elementId t"
| "mutate (UpdateElement elementId updates) t = updateElement elementId updates t"
| "mutate (AddProperty nm ty ti defaultValue) t = addProperty nm ty ti defaultValue t"
| "mutate (RemoveProperty nm) t = removeProperty nm t"

text \<open>What a call of the generator returns or raises, the text it returns, and the
  model it leaves (the model as it was when the call raises).\<close>

definition generatorOutput :: "template \<Rightarrow> error + string" where
  "generatorOutput t = (case generateWebComponent t of Inl e \<Rightarrow> Inl e | Inr r \<Rightarrow> Inr (fst r))"

definition generatedText :: "template \<Rightarrow> string" where
  "generatedText t = (case generateWebComponent t of Inr r \<Rightarrow> fst r | Inl e \<Rightarrow> [])"

definition generatedModel :: "template \<Rightarrow> template" where
  "generatedModel t = (case generateWebComponent t of Inr r \<Rightarrow> snd r | Inl e \<Rightarrow> t)"

text \<open>An artifact that the model accounts for: the generator yields it, its style
  text is safe between backquotes, and its class name and tag are valid.\<close>

definition wellFormedArtifact :: "template \<Rightarrow> bool" where
  "wellFormedArtifact t =
    ((case generateElementStyles t of Inl e \<Rightarrow> False | Inr styles \<Rightarrow> templateSafe styles)
     \<and> validClassName (toCamelCase (manifest_id (manifest t)) @ ''Graphic'')
     \<and> validTag (graphicTag (manifest_id (manifest t))))"

text \<open>The lower-third template after its artifact has been generated once.\<close>

definition generatedLowerThird :: template where
  "generatedLowerThird = generatedModel lowerThird"

text \<open>A data map whose prototype contributes nothing to the names looked up.\<close>

definition noInherited :: "string \<Rightarrow> string option" where
  "noInherited k = None"

text \<open>The animation settings that the property panel stores in a template that has
  none (\<open>defaultAnimationSettings\<close>).\<close>

definition defaultAnimationSettings :: obj where
  "defaultAnimationSettings =
    [(''slideInDuration'', JNum 500), (''slideOutDuration'', JNum 500),
     (''slideInType'', JStr ''ease-out''), (''slideOutType'', JStr ''ease-in''),
     (''slideInDirection'', JStr ''left''), (''slideOutDirection'', JStr ''left'')]"

text \<open>The style rules that the generator writes for the lower third.\<close>

definition lowerThirdStyles :: string where
  "lowerThirdStyles =
     ''.element-background { background-color: rgba(0, 120, 204, 0.9); border-radius: 4px; }\<newline>''
   @ ''.element-name { font-size: 24px; font-family: Arial, sans-serif; font-weight: bold; color: #ffffff; text-align: left; }\<newline>''
   @ ''.element-title { font-size: 16px; font-family: Arial, sans-serif; color: #ffffff; text-align: left; }''"

text \<open>The component that the artifact of the lower third with these settings
  constructs.\<close>

definition lowerThirdComponent :: component where
  "lowerThirdComponent =
     newComponent (elements lowerThird) defaultAnimationSettings lowerThirdStyles"

text \<open>
  The data model asks for element content that is a string or absent, and for ids,
  geometry and style values that convert to strings; with data values that convert
  as well, \<open>render\<close> cannot raise.
\<close>

definition stringContent :: "obj \<Rightarrow> bool" where
  "stringContent element =
    (case get element ''content'' of JStr c \<Rightarrow> True | v \<Rightarrow> \<not> truthy v)"

definition plainElement :: "obj \<Rightarrow> bool" where
  "plainElement element =
    (stringContent element
     \<and> convertible (get element ''id'') \<and> convertible (get element ''x'')
     \<and> convertible (get element ''y'') \<and> convertible (get element ''width'')
     \<and> convertible (get element ''height'')
     \<and> list_all (\<lambda>kv. convertible (snd kv)) (entries (get element ''style'')))"

definition convertibleData :: "obj \<Rightarrow> bool" where
  "convertibleData d = list_all (\<lambda>kv. convertible (snd kv)) d"

definition renderable :: "component \<Rightarrow> bool" where
  "renderable s = (list_all plainElement (c_elements s) \<and> convertibleData (data s))"

text \<open>What a viewer and the host can see of a component: the flag, the data, and the
  content of the shadow root.\<close>

definition shown :: "component \<Rightarrow> bool \<times> obj \<times> string \<times> string list" where
  "shown s = (isVisible s, data s, innerHTML s, map markup (nodes s))"


definition updatedLowerThird :: component where
  "updatedLowerThird = updateAction noInherited [(''name'', JStr ''Jane'')] lowerThirdComponent"

text \<open>The lower third after an update with a name that is an object with a
  \<open>toString\<close> field of its own, as the JSON text \<open>{"name": {"toString": 1}}\<close>
  gives it.\<close>

definition unprintableName :: component where
  "unprintableName =
     updateAction noInherited [(''name'', JObj [(''toString'', JNum 1)])] lowerThirdComponent"

section \<open>Properties\<close>

subsection \<open>kebabCase\<close>

lemma lower_not_upper: "is_lower c \<or> is_digit c \<Longrightarrow> \<not> is_upper c"
  by (auto simp: is_lower_def is_upper_def is_digit_def)

lemma kebabReplace_every: "kebabReplace s = hyphenateEveryUpper s"
  by (induction s rule: kebabReplace.induct)
     (auto simp: hyphenateEveryUpper_def lower_not_upper)

lemma length_hyphenateEveryUpper:
  "length (hyphenateEveryUpper s) = length s + length (filter is_upper s)"
  by (induction s) (auto simp: hyphenateEveryUpper_def)

lemma length_hyphenateAfterLower:
  "length (hyphenateAfterLower s) \<le> length s + length (filter is_upper (tl s))"
  by (induction s rule: hyphenateAfterLower.induct) auto

lemma length_hyphenateAfterLower_strict:
  "\<not> upperOnlyAfterLower s \<Longrightarrow>
   length (hyphenateAfterLower s) < length s + length (filter is_upper (tl s))"
proof (induction s rule: hyphenateAfterLower.induct)
  case (3 c d cs)
  then show ?case
    using length_hyphenateAfterLower[of "d # cs"] by (auto split: if_splits)
qed auto

lemma hyphenateAfterLower_every:
  "upperOnlyAfterLower (c # cs) \<Longrightarrow> hyphenateAfterLower (c # cs) = c # hyphenateEveryUpper cs"
proof (induction "c # cs" arbitrary: c cs rule: hyphenateAfterLower.induct)
  case (2 c)
  then show ?case by (simp add: hyphenateEveryUpper_def)
next
  case (3 c d cs)
  then show ?case by (auto simp: hyphenateEveryUpper_def)
qed

lemma camelKey_agree: "camelKey s \<Longrightarrow> kebabReplace s = hyphenateAfterLower s"
  by (cases s)
     (auto simp: camelKey_def kebabReplace_every hyphenateAfterLower_every hyphenateEveryUpper_def)

lemma not_camelKey_length:
  assumes "\<not> camelKey s"
  shows "length (kebabReplace s) \<noteq> length (hyphenateAfterLower s)"
proof (cases s)
  case Nil
  with assms show ?thesis by (simp add: camelKey_def)
next
  case (Cons c cs)
  show ?thesis
  proof (cases "is_upper c")
    case True
    then show ?thesis
      using length_hyphenateAfterLower[of s] Cons
      by (simp add: kebabReplace_every length_hyphenateEveryUpper)
  next
    case False
    with assms Cons have "\<not> upperOnlyAfterLower s" by (simp add: camelKey_def)
    from length_hyphenateAfterLower_strict[OF this] show ?thesis
      using Cons False by (simp add: kebabReplace_every length_hyphenateEveryUpper)
  qed
qed

text \<open>
  C7 (as the code has it). For every style key, \<open>kebabCase\<close> puts a hyphen before
  every uppercase letter, whatever precedes it, and then lowercases the string. It
  equals the reference algorithm (hyphen only before an uppercase letter that follows
  a lowercase letter or digit) exactly on the keys in which every uppercase letter
  follows a lowercase letter or digit.
\<close>

theorem kebabCase_every_upper:
  "kebabCase s = toLowerCase (hyphenateEveryUpper s) \<and>
   (kebabCase s = kebabReference s \<longleftrightarrow> camelKey s)"
proof -
  have a: "kebabCase s = toLowerCase (hyphenateEveryUpper s)"
    by (simp add: kebabCase_def kebabReplace_every)
  have b: "camelKey s \<Longrightarrow> kebabCase s = kebabReference s"
    by (simp add: kebabCase_def kebabReference_def camelKey_agree)
  have c: "\<not> camelKey s \<Longrightarrow> kebabCase s \<noteq> kebabReference s"
  proof
    assume n: "\<not> camelKey s" and e: "kebabCase s = kebabReference s"
    from e have "length (kebabCase s) = length (kebabReference s)" by simp
    then show False
      using not_camelKey_length[OF n]
      by (simp add: kebabCase_def kebabReference_def toLowerCase_def)
  qed
  from a b c show ?thesis by blast
qed

theorem kebabCase_every_upper_witness:
  "camelKey ''fontSize'' \<and> kebabCase ''fontSize'' = ''font-size''
   \<and> kebabReference ''fontSize'' = ''font-size''
   \<and> kebabCase ''backgroundColor'' = ''background-color''
   \<and> kebabCase ''objectFit'' = ''object-fit''"
proof -
  have k: "camelKey ''fontSize''" by code_simp
  have r: "kebabReference ''fontSize'' = ''font-size''" by code_simp
  have b: "kebabCase ''backgroundColor'' = ''background-color''" by code_simp
  have f: "kebabCase ''objectFit'' = ''object-fit''" by code_simp
  have e: "kebabCase ''fontSize'' = kebabReference ''fontSize''"
    using kebabCase_every_upper[of "''fontSize''"] k by blast
  from e k r b f show ?thesis by simp
qed

text \<open>
  C7 (as stated) fails: the vendor-prefixed key \<open>WebkitTransform\<close> starts with an
  uppercase letter that nothing precedes; the code writes a hyphen before it, the
  reference algorithm does not.
\<close>

theorem kebabCase_reference_counterexample:
  "kebabCase ''WebkitTransform'' = ''-webkit-transform''
   \<and> kebabReference ''WebkitTransform'' = ''webkit-transform''
   \<and> kebabCase ''WebkitTransform'' \<noteq> kebabReference ''WebkitTransform''"
  by code_simp

subsection \<open>Serialization round trip\<close>

text \<open>
  C8. For every template model, \<open>toJSON\<close> followed by \<open>fromJSON\<close> yields a model
  with the same manifest, the same element list and the same cached artifact text
  (present or absent).
\<close>

theorem toJSON_fromJSON_roundtrip:
  "manifest (fromJSON (toJSON t)) = manifest t
   \<and> elements (fromJSON (toJSON t)) = elements t
   \<and> webComponent (fromJSON (toJSON t)) = webComponent t"
  by (simp add: toJSON_def fromJSON_def)

subsection \<open>Presets\<close>

lemmas preset_defs = createFromType_def newTemplate_def setupLowerThird_def setupTitle_def
  setupBug_def setupCustom_def shape_def slideActions_def stringProperty_def get_def

text \<open>
  C9. Creating a model from the lower-third preset (type string \<open>lower-third\<close>) with
  id \<open>x\<close>, name \<open>Name\<close> and description \<open>d\<close> yields exactly three elements with ids
  background, name, title, the schema properties name and title, \<open>stepCount = 1\<close>
  and the custom actions slideIn and slideOut.
\<close>

theorem lowerThird_preset:
  "length (elements (createFromType ''lower-third'' ''x'' ''Name'' ''d'')) = 3
   \<and> map (\<lambda>e. get e ''id'') (elements (createFromType ''lower-third'' ''x'' ''Name'' ''d''))
       = [JStr ''background'', JStr ''name'', JStr ''title'']
   \<and> map fst (properties (manifest (createFromType ''lower-third'' ''x'' ''Name'' ''d'')))
       = [''name'', ''title'']
   \<and> stepCount (manifest (createFromType ''lower-third'' ''x'' ''Name'' ''d'')) = Some 1
   \<and> map_option (map action_id)
         (customActions (manifest (createFromType ''lower-third'' ''x'' ''Name'' ''d'')))
       = Some [''slideIn'', ''slideOut'']"
  by (simp add: preset_defs)

subsection \<open>addElement and element ids\<close>

lemma map_of_assign:
  "wf_obj source \<Longrightarrow> map_of (assign target source) k =
     (case map_of source k of Some v \<Rightarrow> Some v | None \<Rightarrow> map_of target k)"
  unfolding assign_def wf_obj_def
proof (induction source arbitrary: target)
  case Nil
  then show ?case by simp
next
  case (Cons kv source)
  then have "fst kv \<notin> fst ` set source" and d: "distinct (map fst source)" by auto
  then have n: "map_of source (fst kv) = None" by (simp add: map_of_eq_None_iff)
  show ?case
    using Cons.IH[OF d, of "AList.update (fst kv) (snd kv) target"] n
    by (cases kv) (auto simp: update_conv' split: option.splits)
qed

lemma digits_small: "n < 10 \<Longrightarrow> digits n = [char_of (48 + n)]"
  by (subst digits.simps) simp
lemma digits_step: "10 \<le> n \<Longrightarrow> digits n = digits (n div 10) @ [char_of (48 + n mod 10)]"
  by (subst digits.simps) simp
lemma char_of_digit:
  "char_of (48::nat) = CHR ''0''" "char_of (49::nat) = CHR ''1''" "char_of (50::nat) = CHR ''2''"
  "char_of (51::nat) = CHR ''3''" "char_of (52::nat) = CHR ''4''" "char_of (53::nat) = CHR ''5''"
  "char_of (54::nat) = CHR ''6''" "char_of (55::nat) = CHR ''7''" "char_of (56::nat) = CHR ''8''"
  "char_of (57::nat) = CHR ''9''"
  by code_simp+

text \<open>
  C10. For an element spec that is an object (each name once): the appended element
  carries the id of the spec verbatim when the spec has an \<open>id\<close> field, and the
  generated \<open>element_<timestamp>\<close> id only when the spec has none. So \<open>addElement\<close>
  does not keep ids unique: a spec whose id is that of an element already in the
  model leaves two elements with the same id.
\<close>

theorem addElement_keeps_supplied_id:
  assumes "wf_obj spec"
  shows "elements (addElement now spec t) = elements t @ [appended now spec t]
    \<and> (\<forall>v. map_of spec ''id'' = Some v \<longrightarrow> get (appended now spec t) ''id'' = v)
    \<and> (map_of spec ''id'' = None \<longrightarrow>
         get (appended now spec t) ''id'' = JStr (''element_'' @ showInt now))
    \<and> (\<forall>i. map_of spec ''id'' = Some (JStr i) \<and> getElementById i t \<noteq> None \<longrightarrow>
         \<not> distinct (map (\<lambda>e. get e ''id'') (elements (addElement now spec t))))"
proof -
  have a: "elements (addElement now spec t) = elements t @ [appended now spec t]"
    by (simp add: addElement_def appended_def)
  have b: "get (appended now spec t) ''id'' =
     (case map_of spec ''id'' of Some v \<Rightarrow> v | None \<Rightarrow> JStr (''element_'' @ showInt now))"
    using assms
    by (simp add: appended_def addElement_def get_def map_of_assign split: option.splits)
  have c: "\<not> distinct (map (\<lambda>e. get e ''id'') (elements (addElement now spec t)))"
    if "map_of spec ''id'' = Some (JStr i)" "getElementById i t \<noteq> None" for i
  proof -
    from that(2) obtain el where "el \<in> set (elements t)" "hasId i el"
      by (auto simp: getElementById_def find_None_iff)
    then have "JStr i \<in> set (map (\<lambda>e. get e ''id'') (elements t))"
      by (force simp: hasId_def)
    moreover have "get (appended now spec t) ''id'' = JStr i" using b that(1) by simp
    ultimately show ?thesis by (simp add: a)
  qed
  from a b c show ?thesis by (auto split: option.splits)
qed

theorem addElement_keeps_supplied_id_witness:
  "wf_obj ((''id'', JStr ''background'') # rectSpec)
   \<and> map_of ((''id'', JStr ''background'') # rectSpec) ''id'' = Some (JStr ''background'')
   \<and> getElementById ''background'' lowerThird \<noteq> None
   \<and> get (appended 1700000000000 ((''id'', JStr ''background'') # rectSpec) lowerThird) ''id''
       = JStr ''background''
   \<and> \<not> distinct (map (\<lambda>e. get e ''id'')
         (elements (addElement 1700000000000 ((''id'', JStr ''background'') # rectSpec) lowerThird)))
   \<and> wf_obj rectSpec \<and> map_of rectSpec ''id'' = None
   \<and> get (appended 1700000000000 rectSpec lowerThird) ''id'' = JStr ''element_1700000000000''"
proof -
  have w1: "wf_obj ((''id'', JStr ''background'') # rectSpec)"
    by (simp add: wf_obj_def rectSpec_def)
  have m1: "map_of ((''id'', JStr ''background'') # rectSpec) ''id'' = Some (JStr ''background'')"
    by simp
  have g: "getElementById ''background'' lowerThird \<noteq> None"
    by (simp add: getElementById_def lowerThird_def hasId_def preset_defs)
  have w2: "wf_obj rectSpec" by (simp add: wf_obj_def rectSpec_def)
  have m2: "map_of rectSpec ''id'' = None" by (simp add: rectSpec_def)
  have s: "showInt 1700000000000 = ''1700000000000''"
    by (simp add: showInt_def showNat_def digits_small digits_step char_of_digit
          del: digits.simps)
  from addElement_keeps_supplied_id[OF w1, of 1700000000000 lowerThird] m1 g
  have r1: "get (appended 1700000000000 ((''id'', JStr ''background'') # rectSpec) lowerThird) ''id''
       = JStr ''background''"
    and r2: "\<not> distinct (map (\<lambda>e. get e ''id'')
         (elements (addElement 1700000000000 ((''id'', JStr ''background'') # rectSpec) lowerThird)))"
    by blast+
  from addElement_keeps_supplied_id[OF w2, of 1700000000000 lowerThird] m2 s
  have r3: "get (appended 1700000000000 rectSpec lowerThird) ''id'' = JStr ''element_1700000000000''"
    by simp
  from w1 m1 g r1 r2 w2 m2 r3 show ?thesis by blast
qed

subsection \<open>Determinism of the generator\<close>

lemma componentCode_cong:
  assumes "manifest t' = manifest t" "elements t' = elements t"
    "animationSettings t' = animationSettings t"
  shows "componentCode t' = componentCode t"
  unfolding componentCode_def classRest_def generateElementStyles_def by (simp only: assms)

lemma generatorOutput_cong:
  assumes "manifest t' = manifest t" "elements t' = elements t"
    "animationSettings t' = animationSettings t"
  shows "generatorOutput t' = generatorOutput t"
  using componentCode_cong[OF assms]
  by (simp add: generatorOutput_def generateWebComponent_def andThen_def Let_def split: sum.splits)

lemma generatedModel_fields:
  "manifest (generatedModel t) = manifest t" "elements (generatedModel t) = elements t"
  "animationSettings (generatedModel t) = animationSettings t"
  by (simp_all add: generatedModel_def generateWebComponent_def andThen_def Let_def
        split: sum.splits)

lemma generate_twice: "generatorOutput (generatedModel t) = generatorOutput t"
  by (rule generatorOutput_cong) (simp_all add: generatedModel_fields)

text \<open>
  C6. \<open>generateWebComponent\<close> stores its output in the model, so a second invocation
  runs on a changed object; what it returns, or that it raises, is the same all the
  same. More generally the outcome is determined by the manifest, the element list
  and the animation settings: two models that agree on these three yield identical
  text.
\<close>

theorem generateWebComponent_deterministic:
  "generatorOutput (generatedModel t) = generatorOutput t
   \<and> (manifest t' = manifest t \<and> elements t' = elements t
        \<and> animationSettings t' = animationSettings t
      \<longrightarrow> generatorOutput t' = generatorOutput t)"
  using generate_twice[of t] generatorOutput_cong[of t' t] by blast

theorem generateWebComponent_deterministic_witness:
  "manifest (lowerThird\<lparr>webComponent := Some ''// edited''\<rparr>) = manifest lowerThird
   \<and> elements (lowerThird\<lparr>webComponent := Some ''// edited''\<rparr>) = elements lowerThird
   \<and> animationSettings (lowerThird\<lparr>webComponent := Some ''// edited''\<rparr>)
       = animationSettings lowerThird
   \<and> generatorOutput (lowerThird\<lparr>webComponent := Some ''// edited''\<rparr>)
       = generatorOutput lowerThird
   \<and> generatorOutput (generatedModel lowerThird) = generatorOutput lowerThird"
  using generateWebComponent_deterministic
          [of lowerThird "lowerThird\<lparr>webComponent := Some ''// edited''\<rparr>"]
  by simp

subsection \<open>The text of an artifact\<close>

lemma styles_lowerThird: "generateElementStyles lowerThird = Inr lowerThirdStyles"
  by code_simp

lemma trim_core:
  assumes "list_all is_space l" "list_all is_space r" "x \<noteq> []"
    "\<not> is_space (hd x)" "\<not> is_space (last x)"
  shows "trim (l @ x @ r) = x"
proof -
  from assms(3,4) have 1: "dropWhile is_space (l @ x @ r) = x @ r"
    using assms(1) by (cases x) (auto simp: dropWhile_append list_all_iff)
  from assms(3,5) have 2: "dropWhile is_space (rev r @ rev x) = rev x"
    using assms(2) by (cases x rule: rev_cases) (auto simp: dropWhile_append list_all_iff)
  show ?thesis by (simp add: trim_def 1 2)
qed

lemma hd_classHead: "hd (classHead i @ rest) = CHR ''c''"
  by (simp add: classHead_def)

lemma last_classRest: "last (pre @ classRest t styles) = CHR '';''"
  by (simp add: classRest_def registrationLine_def)

lemma classRest_nonempty: "classRest t styles \<noteq> []"
  by (simp add: classRest_def)



lemma trim_artifactText:
  "trim (''\<newline>'' @ artifactText t styles @ ''\<newline>        '') = artifactText t styles"
proof (rule trim_core)
  show "list_all is_space ''\<newline>''" by (simp add: is_space_def)
  show "list_all is_space ''\<newline>        ''" by (simp add: is_space_def)
  show "artifactText t styles \<noteq> []" by (simp add: artifactText_def classRest_nonempty)
  show "\<not> is_space (hd (artifactText t styles))"
    unfolding artifactText_def by (simp only: hd_classHead) (simp add: is_space_def)
  have "last (artifactText t styles) = CHR '';''"
    using last_classRest[of "classHead (manifest_id (manifest t)) @ JSON_stringify (JArr (map JObj (elements t)))" t styles]
    by (simp add: artifactText_def)
  then show "\<not> is_space (last (artifactText t styles))" by (simp add: is_space_def)
qed

lemma generateWebComponent_text:
  "generateWebComponent t =
    (case generateElementStyles t of
       Inl e \<Rightarrow> Inl e
     | Inr styles \<Rightarrow> Inr (artifactText t styles, t\<lparr>webComponent := Some (artifactText t styles)\<rparr>))"
proof (cases "generateElementStyles t")
  case (Inl e)
  then show ?thesis by (simp add: generateWebComponent_def componentCode_def andThen_def)
next
  case (Inr styles)
  have "componentCode t = Inr (''\<newline>'' @ artifactText t styles @ ''\<newline>        '')"
    by (simp add: componentCode_def andThen_def Inr artifactText_def)
  then show ?thesis
    by (simp add: generateWebComponent_def andThen_def Let_def Inr trim_artifactText
          del: append.simps append_assoc)
qed

lemma generatorOutput_text:
  "generatorOutput t =
    (case generateElementStyles t of Inl e \<Rightarrow> Inl e | Inr styles \<Rightarrow> Inr (artifactText t styles))"
  by (simp add: generatorOutput_def generateWebComponent_text split: sum.splits)

lemma join_snoc: "ms \<noteq> [] \<Longrightarrow> join sep (ms @ [m]) = join sep ms @ sep @ m"
  by (induction sep ms rule: join.induct) auto

lemma stringify_array_snoc:
  "JSON_stringify (JArr (map JObj (els @ [e]))) @ rest \<noteq> JSON_stringify (JArr (map JObj els)) @ rest'"
proof (cases els)
  case Nil
  then show ?thesis by (simp add: JSON_stringify_def)
next
  case (Cons a as)
  let ?g = "\<lambda>v. case stringify v of None \<Rightarrow> ''null'' | Some t \<Rightarrow> t"
  have "join '','' (map ?g (map JObj els) @ [?g (JObj e)])
      = join '','' (map ?g (map JObj els)) @ '','' @ ?g (JObj e)"
    by (rule join_snoc) (simp add: Cons)
  then show ?thesis by (simp add: JSON_stringify_def)
qed

lemma artifact_addElement_differs:
  assumes "generatorOutput t = Inr txt"
  shows "generatorOutput (addElement now e t) \<noteq> Inr txt"
proof
  assume a: "generatorOutput (addElement now e t) = Inr txt"
  have m: "manifest (addElement now e t) = manifest t" by (simp add: addElement_def)
  have el: "elements (addElement now e t)
      = elements t @ [assign [(''id'', JStr (''element_'' @ showInt now))] e]"
    by (simp add: addElement_def)
  from assms obtain s1 where 1: "txt = artifactText t s1"
    by (auto simp: generatorOutput_text split: sum.splits)
  from a obtain s2 where 2: "txt = artifactText (addElement now e t) s2"
    by (auto simp: generatorOutput_text split: sum.splits)
  from 1 2 show False
    unfolding artifactText_def m el using stringify_array_snoc by simp
qed

lemma generated_lowerThird:
  "generateWebComponent lowerThird
     = Inr (artifactText lowerThird lowerThirdStyles,
            lowerThird\<lparr>webComponent := Some (artifactText lowerThird lowerThirdStyles)\<rparr>)"
  by (simp add: generateWebComponent_text styles_lowerThird)

lemma generatedLowerThird_fields:
  "generatedLowerThird = lowerThird\<lparr>webComponent := Some (generatedText lowerThird)\<rparr>"
  "generatorOutput lowerThird = Inr (generatedText lowerThird)"
  "generatedText lowerThird \<noteq> []"
  by (simp_all add: generatedLowerThird_def generatedModel_def generatedText_def
        generatorOutput_def generated_lowerThird artifactText_def classRest_nonempty)

subsection \<open>Mutators and the cached artifact\<close>

lemma webComponent_mutate: "webComponent (mutate m t) = webComponent t"
  by (cases m)
     (simp_all add: addElement_def removeElement_def updateElement_def addProperty_def
        removeProperty_def)

lemma hasComponent_mutate: "hasComponent (mutate m t) = hasComponent t"
  by (simp add: hasComponent_def webComponent_mutate)

text \<open>
  C2 (as the code has it). No mutator (\<open>addElement\<close>, \<open>removeElement\<close>,
  \<open>updateElement\<close>, \<open>addProperty\<close>, \<open>removeProperty\<close>) touches the cached artifact
  text: it is after the mutation what it was before. A read therefore returns the
  text cached before the mutation when there is one, without running the generator,
  and runs the generator on the mutated model only when nothing is cached. The
  generator is never run inside a mutator.
\<close>

theorem mutators_keep_cached_text:
  "webComponent (mutate m t) = webComponent t
   \<and> (hasComponent t \<longrightarrow> readComponent (mutate m t) = Inr (webComponent t, mutate m t))
   \<and> (\<not> hasComponent t \<longrightarrow>
        readComponent (mutate m t) =
          (case generateWebComponent (mutate m t) of
             Inl e \<Rightarrow> Inl e
           | Inr r \<Rightarrow> Inr (Some (fst r), snd r)))"
  by (auto simp: readComponent_def hasComponent_mutate webComponent_mutate andThen_def
        generateWebComponent_def Let_def split: sum.splits)

theorem mutators_keep_cached_text_witness:
  "hasComponent generatedLowerThird
   \<and> readComponent (mutate (AddElement 1700000000000 rectSpec) generatedLowerThird)
       = Inr (Some (generatedText lowerThird),
              mutate (AddElement 1700000000000 rectSpec) generatedLowerThird)
   \<and> \<not> hasComponent lowerThird
   \<and> readComponent (mutate (RemoveElement ''name'') lowerThird)
       = (case generateWebComponent (mutate (RemoveElement ''name'') lowerThird) of
            Inl e \<Rightarrow> Inl e | Inr r \<Rightarrow> Inr (Some (fst r), snd r))"
proof -
  have h: "hasComponent generatedLowerThird"
    by (simp add: generatedLowerThird_fields hasComponent_def)
  have n: "\<not> hasComponent lowerThird"
    by (simp add: hasComponent_def lowerThird_def createFromType_def newTemplate_def
          setupLowerThird_def)
  from mutators_keep_cached_text[of "AddElement 1700000000000 rectSpec" generatedLowerThird] h
  have a: "readComponent (mutate (AddElement 1700000000000 rectSpec) generatedLowerThird)
       = Inr (Some (generatedText lowerThird),
              mutate (AddElement 1700000000000 rectSpec) generatedLowerThird)"
    by (simp add: generatedLowerThird_fields(1))
  from mutators_keep_cached_text[of "RemoveElement ''name''" lowerThird] n
  have b: "readComponent (mutate (RemoveElement ''name'') lowerThird)
       = (case generateWebComponent (mutate (RemoveElement ''name'') lowerThird) of
            Inl e \<Rightarrow> Inl e | Inr r \<Rightarrow> Inr (Some (fst r), snd r))"
    by blast
  from h a n b show ?thesis by blast
qed

text \<open>
  C2 (as stated) fails: after the artifact of the lower-third template has been
  generated, \<open>addElement\<close> leaves it cached; the next read returns that text, which
  is not the text the generator yields for the model with the new element.
\<close>

theorem stale_component_counterexample:
  "generatorOutput lowerThird = Inr (generatedText lowerThird)
   \<and> hasComponent (addElement 1700000000000 rectSpec generatedLowerThird)
   \<and> readComponent (addElement 1700000000000 rectSpec generatedLowerThird)
       = Inr (Some (generatedText lowerThird), addElement 1700000000000 rectSpec generatedLowerThird)
   \<and> generatorOutput (addElement 1700000000000 rectSpec generatedLowerThird)
       \<noteq> Inr (generatedText lowerThird)"
proof -
  have w: "webComponent (addElement 1700000000000 rectSpec generatedLowerThird)
      = Some (generatedText lowerThird)"
    by (simp add: addElement_def generatedLowerThird_fields(1))
  have h: "hasComponent (addElement 1700000000000 rectSpec generatedLowerThird)"
    using generatedLowerThird_fields(3) by (simp add: hasComponent_def w)
  have r: "readComponent (addElement 1700000000000 rectSpec generatedLowerThird)
       = Inr (Some (generatedText lowerThird), addElement 1700000000000 rectSpec generatedLowerThird)"
    by (simp add: readComponent_def h w)
  have g: "generatorOutput generatedLowerThird = Inr (generatedText lowerThird)"
    using generate_twice[of lowerThird]
    by (simp add: generatedLowerThird_def generatedLowerThird_fields(2))
  from artifact_addElement_differs[OF g, of 1700000000000 rectSpec]
  have d: "generatorOutput (addElement 1700000000000 rectSpec generatedLowerThird)
       \<noteq> Inr (generatedText lowerThird)" .
  from generatedLowerThird_fields(2) h r d show ?thesis by blast
qed

subsection \<open>Registration of the tag\<close>

lemma suffix_registrationLine:
  "generatorOutput t = Inr txt \<Longrightarrow> suffix (registrationLine (manifest_id (manifest t))) txt"
  by (auto simp: generatorOutput_text artifactText_def classRest_def suffix_def
      split: sum.splits)

lemma validTag_plainId: "validTag (graphicTag ident) \<Longrightarrow> list_all plainIdChar ident"
proof -
  have a: "plainIdChar x"
    if "is_lower x \<or> is_digit x \<or> x = CHR ''-'' \<or> x = CHR ''.'' \<or> x = CHR ''_''" for x
    using that by (auto simp: plainIdChar_def is_word_def)
  assume "validTag (graphicTag ident)"
  then show ?thesis
    by (cases ident) (auto simp: validTag_def graphicTag_def list_all_iff intro: a)
qed

lemma runArtifact_wellFormed:
  assumes "wellFormedArtifact t"
  shows "runArtifact t registry =
    Some (if graphicTag (manifest_id (manifest t)) \<in> set registry then Inl NotSupportedError
          else Inr (registry @ [graphicTag (manifest_id (manifest t))]))"
  using assms validTag_plainId[of "manifest_id (manifest t)"]
  by (auto simp: wellFormedArtifact_def runArtifact_def customElements_define_def
      split: sum.splits)

text \<open>
  C5 (as the code has it). Every artifact ends with the call
  \<open>customElements.define('<id>-graphic', ...)\<close> under no condition. For a manifest
  id that gives a valid class name and tag, and style rules that stand for
  themselves between backquotes, evaluating the artifact registers the tag when it
  is not registered yet, and attempts a second registration, which the registry
  rejects, when it is.
\<close>

theorem registration_unguarded:
  "(\<forall>txt. generatorOutput t = Inr txt \<longrightarrow>
       suffix (registrationLine (manifest_id (manifest t))) txt)
   \<and> (wellFormedArtifact t \<longrightarrow>
        (graphicTag (manifest_id (manifest t)) \<notin> set registry \<longrightarrow>
           runArtifact t registry = Some (Inr (registry @ [graphicTag (manifest_id (manifest t))])))
        \<and> (graphicTag (manifest_id (manifest t)) \<in> set registry \<longrightarrow>
           runArtifact t registry = Some (Inl NotSupportedError)))"
  using suffix_registrationLine[of t] runArtifact_wellFormed[of t registry] by auto

lemma lowerThird_id: "manifest_id (manifest lowerThird) = ''x''"
  by (simp add: lowerThird_def createFromType_def newTemplate_def setupLowerThird_def)

lemma templateSafe_lowerThirdStyles: "templateSafe lowerThirdStyles"
  by code_simp

lemma wellFormed_lowerThird: "wellFormedArtifact lowerThird"
proof -
  have "validClassName (toCamelCase ''x'' @ ''Graphic'')" by code_simp
  moreover have "validTag (graphicTag ''x'')" by code_simp
  ultimately show ?thesis
    by (simp add: wellFormedArtifact_def styles_lowerThird templateSafe_lowerThirdStyles
          lowerThird_id)
qed

lemma wellFormed_generatedLowerThird: "wellFormedArtifact generatedLowerThird"
proof -
  have "generateElementStyles generatedLowerThird = generateElementStyles lowerThird"
    by (simp add: generateElementStyles_def generatedLowerThird_fields(1))
  then show ?thesis
    using wellFormed_lowerThird
    by (simp add: wellFormedArtifact_def generatedLowerThird_fields(1))
qed

theorem registration_unguarded_witness:
  "generatorOutput lowerThird = Inr (generatedText lowerThird)
   \<and> suffix (registrationLine (manifest_id (manifest lowerThird))) (generatedText lowerThird)
   \<and> wellFormedArtifact lowerThird
   \<and> graphicTag (manifest_id (manifest lowerThird)) \<notin> set []
   \<and> runArtifact lowerThird [] = Some (Inr [''x-graphic''])
   \<and> graphicTag (manifest_id (manifest lowerThird)) \<in> set [''x-graphic'']
   \<and> runArtifact lowerThird [''x-graphic''] = Some (Inl NotSupportedError)"
proof -
  have i: "graphicTag (manifest_id (manifest lowerThird)) = ''x-graphic''"
    by (simp add: graphicTag_def lowerThird_id)
  from registration_unguarded[of lowerThird "[]"] generatedLowerThird_fields(2)
    wellFormed_lowerThird
  have a: "suffix (registrationLine (manifest_id (manifest lowerThird))) (generatedText lowerThird)"
    and b: "runArtifact lowerThird [] = Some (Inr [''x-graphic''])"
    by (simp_all add: i)
  from registration_unguarded[of lowerThird "[''x-graphic'']"] wellFormed_lowerThird
  have c: "runArtifact lowerThird [''x-graphic''] = Some (Inl NotSupportedError)"
    by (simp add: i)
  from generatedLowerThird_fields(2) wellFormed_lowerThird a b c show ?thesis
    by (simp add: i)
qed

text \<open>
  C5 (as stated) fails: evaluating the artifact of the lower-third template with id
  \<open>x\<close> a second time, or evaluating the regenerated identical artifact, attempts to
  register \<open>x-graphic\<close> again.
\<close>

theorem double_registration_counterexample:
  "runArtifact lowerThird [] = Some (Inr [''x-graphic''])
   \<and> runArtifact lowerThird [''x-graphic''] = Some (Inl NotSupportedError)
   \<and> runArtifact generatedLowerThird [''x-graphic''] = Some (Inl NotSupportedError)"
proof -
  have i: "graphicTag (manifest_id (manifest lowerThird)) = ''x-graphic''"
    "graphicTag (manifest_id (manifest generatedLowerThird)) = ''x-graphic''"
    by (simp_all add: graphicTag_def lowerThird_id generatedLowerThird_fields(1))
  show ?thesis
    by (simp add: runArtifact_wellFormed wellFormed_lowerThird wellFormed_generatedLowerThird i)
qed

subsection \<open>Content interpolation\<close>

lemma brace_not_word: "\<not> is_word (CHR ''{'')" "\<not> is_word (CHR ''}'')"
  by (simp_all add: is_word_def is_upper_def is_lower_def is_digit_def)

lemma takeWhile_word_key:
  "list_all is_word key \<Longrightarrow> takeWhile is_word (key @ CHR ''}'' # rest) = key"
  "list_all is_word key \<Longrightarrow> dropWhile is_word (key @ CHR ''}'' # rest) = CHR ''}'' # rest"
  by (induction key) (auto simp: brace_not_word)

lemma matchPlaceholder_placeholder:
  "wordKey key \<Longrightarrow> matchPlaceholder (placeholder key @ rest) = Some key"
  by (simp add: matchPlaceholder_def placeholder_def wordKey_def takeWhile_word_key)

lemma interpolate_at_placeholder:
  assumes "wordKey key"
  shows "interpolateContent inh d (placeholder key @ rest)
         = andThen (substitute inh d key) (\<lambda>b.
           andThen (interpolateContent inh d rest) (\<lambda>c. Inr (b @ c)))"
proof -
  define cs where "cs = CHR ''{'' # key @ ''}}'' @ rest"
  have p: "placeholder key @ rest = CHR ''{'' # cs"
    by (simp add: cs_def placeholder_def)
  have m: "matchPlaceholder (CHR ''{'' # cs) = Some key"
    using matchPlaceholder_placeholder[OF assms, of rest] by (simp only: p)
  have "length key + 3 = Suc (length key + 2)" by simp
  then have d: "drop (length key + 3) cs = rest"
    unfolding cs_def by (simp only: drop_Suc_Cons) simp
  show ?thesis by (simp only: p interpolateContent.simps m option.case d)
qed

lemma matchPlaceholder_Some:
  assumes "matchPlaceholder s = Some k"
  shows "length k + 4 \<le> length s"
proof -
  from assms obtain r where s: "s = CHR ''{'' # CHR ''{'' # r"
    by (auto simp: matchPlaceholder_def split: list.splits if_splits)
  with assms have k: "k = takeWhile is_word r" and t: "take 2 (dropWhile is_word r) = ''}}''"
    by (auto simp: matchPlaceholder_def Let_def split: if_splits)
  from t have "2 \<le> length (dropWhile is_word r)"
    by (cases "dropWhile is_word r" rule: list.exhaust; cases "tl (dropWhile is_word r)") auto
  moreover have "length r = length k + length (dropWhile is_word r)"
    unfolding k by (metis length_append takeWhile_dropWhile_id)
  ultimately show ?thesis by (simp add: s)
qed

lemma matchPlaceholder_append:
  assumes "pre \<noteq> []"
  shows "matchPlaceholder (pre @ CHR ''{'' # CHR ''{'' # x) = matchPlaceholder pre"
proof (cases pre)
  case Nil
  with assms show ?thesis by simp
next
  case (Cons c1 p1)
  show ?thesis
  proof (cases p1)
    case Nil
    with Cons show ?thesis by (simp add: matchPlaceholder_def brace_not_word)
  next
    case (Cons c2 r)
    let ?y = "CHR ''{'' # CHR ''{'' # x"
    have "(let key = takeWhile is_word (r @ ?y); after = dropWhile is_word (r @ ?y)
           in if key \<noteq> [] \<and> take 2 after = ''}}'' then Some key else None)
        = (let key = takeWhile is_word r; after = dropWhile is_word r
           in if key \<noteq> [] \<and> take 2 after = ''}}'' then Some key else None)"
    proof (cases "list_all is_word r")
      case True
      then have a: "\<And>x. x \<in> set r \<Longrightarrow> is_word x" by (simp add: list_all_iff)
      have f: "takeWhile is_word (r @ ?y) = r" "dropWhile is_word (r @ ?y) = ?y"
        "takeWhile is_word r = r" "dropWhile is_word r = []"
        using a by (simp_all add: brace_not_word)
      show ?thesis by (simp only: f Let_def) simp
    next
      case False
      then obtain z where z: "z \<in> set r" "\<not> is_word z" by (auto simp: list_all_iff)
      have 1: "takeWhile is_word (r @ ?y) = takeWhile is_word r"
        and 2: "dropWhile is_word (r @ ?y) = dropWhile is_word r @ ?y"
        using z by simp_all
      have 3: "dropWhile is_word r \<noteq> []"
        using z by auto
      have "(take 2 (dropWhile is_word r @ ?y) = ''}}'') = (take 2 (dropWhile is_word r) = ''}}'')"
      proof (cases "dropWhile is_word r")
        case Nil
        with 3 show ?thesis by simp
      next
        case (Cons e es)
        then show ?thesis by (cases es) auto
      qed
      then show ?thesis by (simp add: 1 2 Let_def)
    qed
    then show ?thesis
      using \<open>pre = c1 # p1\<close> \<open>p1 = c2 # r\<close> by (simp add: matchPlaceholder_def)
  qed
qed

lemma interpolate_append_placeholder:
  "interpolateContent inh d (pre @ placeholder key @ rest)
   = andThen (interpolateContent inh d pre) (\<lambda>a.
     andThen (interpolateContent inh d (placeholder key @ rest)) (\<lambda>r. Inr (a @ r)))"
proof (induction inh d pre rule: interpolateContent.induct)
  case (1 inh d)
  then show ?case by (simp add: andThen_def split: sum.splits)
next
  case (2 inh d c cs)
  have pk: "placeholder key @ rest = CHR ''{'' # CHR ''{'' # key @ ''}}'' @ rest"
    by (simp add: placeholder_def)
  have m: "matchPlaceholder ((c # cs) @ placeholder key @ rest) = matchPlaceholder (c # cs)"
    unfolding pk by (rule matchPlaceholder_append) simp
  show ?case
  proof (cases "matchPlaceholder (c # cs)")
    case None
    with m 2 show ?thesis by (simp add: andThen_def split: sum.splits)
  next
    case (Some k)
    from matchPlaceholder_Some[OF Some] have "length k + 3 \<le> length cs" by simp
    then have "drop (length k + 3) (cs @ placeholder key @ rest)
        = drop (length k + 3) cs @ placeholder key @ rest" by simp
    with m Some 2 show ?thesis by (simp add: andThen_def split: sum.splits)
  qed
qed

lemma interpolate_no_brace:
  "CHR ''{'' \<notin> set s \<Longrightarrow> interpolateContent inh d s = Inr s"
proof (induction s)
  case Nil
  then show ?case by simp
next
  case (Cons c cs)
  then have "matchPlaceholder (c # cs) = None"
    by (auto simp: matchPlaceholder_def split: list.splits)
  with Cons show ?case by (simp add: andThen_def)
qed

lemma substitute_convertible:
  assumes "convertibleData d"
  shows "\<exists>r. substitute inh d key = Inr r"
proof (cases "map_of d key")
  case None
  then show ?thesis by (simp add: substitute_def split: option.splits)
next
  case (Some v)
  then have "(key, v) \<in> set d" by (rule map_of_SomeD)
  with assms have "convertible v" by (auto simp: convertibleData_def list_all_iff)
  then obtain r where "toStringJS v = Inr r" by (auto simp: convertible_def split: sum.splits)
  with Some show ?thesis by (simp add: substitute_def)
qed

lemma interpolate_convertible:
  "convertibleData d \<Longrightarrow> \<exists>r. interpolateContent inh d content = Inr r"
proof (induction inh d content rule: interpolateContent.induct)
  case (1 inh d)
  then show ?case by simp
next
  case (2 inh d c cs)
  show ?case
  proof (cases "matchPlaceholder (c # cs)")
    case None
    with 2 show ?thesis by (auto simp: andThen_def)
  next
    case (Some k)
    from substitute_convertible[OF 2(3), of inh k] obtain v where "substitute inh d k = Inr v" ..
    with Some 2 show ?thesis by (auto simp: andThen_def)
  qed
qed

text \<open>
  C3 (as the code has it). For every content string and data map, an occurrence of
  \<open>{{name}}\<close> (name a non-empty run of letters, digits and underscores), wherever
  it stands in the content, is replaced after the occurrences before it and before
  those after it: by the data map's value for name, converted to a string, when name
  is a key of the map and the value is truthy (a non-empty string is taken as it
  is); by itself, so unchanged, when name is neither a key of the map nor the name
  of a property the map inherits from \<open>Object.prototype\<close>. Content without an
  opening brace is returned as it is. The function raises only what a conversion to
  a string raises: it returns a string whenever every value of the data map can be
  converted.
\<close>

theorem interpolateContent_truthy_values:
  assumes "wordKey key"
  shows "interpolateContent inh d (pre @ placeholder key @ rest)
         = andThen (interpolateContent inh d pre) (\<lambda>a.
           andThen (substitute inh d key) (\<lambda>b.
           andThen (interpolateContent inh d rest) (\<lambda>c. Inr (a @ b @ c))))
    \<and> (\<forall>v. map_of d key = Some v \<and> truthy v \<longrightarrow> substitute inh d key = toStringJS v)
    \<and> (\<forall>s. map_of d key = Some (JStr s) \<and> s \<noteq> [] \<longrightarrow> substitute inh d key = Inr s)
    \<and> (map_of d key = None \<and> inh key = None \<longrightarrow> substitute inh d key = Inr (placeholder key))
    \<and> (CHR ''{'' \<notin> set pre \<longrightarrow> interpolateContent inh d pre = Inr pre)
    \<and> (convertibleData d \<longrightarrow>
         (\<exists>r. interpolateContent inh d (pre @ placeholder key @ rest) = Inr r))"
proof -
  have a: "interpolateContent inh d (pre @ placeholder key @ rest)
         = andThen (interpolateContent inh d pre) (\<lambda>a.
           andThen (substitute inh d key) (\<lambda>b.
           andThen (interpolateContent inh d rest) (\<lambda>c. Inr (a @ b @ c))))"
    by (simp add: interpolate_append_placeholder interpolate_at_placeholder[OF assms]
          andThen_def split: sum.splits)
  show ?thesis
    using interpolate_convertible[of d inh "pre @ placeholder key @ rest"]
    by (simp add: a) (auto simp: substitute_def interpolate_no_brace)
qed

lemma wordKey_name: "wordKey ''name''" "wordKey ''missing''"
  by (simp_all add: wordKey_def is_word_def is_upper_def is_lower_def is_digit_def)

theorem interpolateContent_truthy_values_witness:
  "wordKey ''name'' \<and> wordKey ''missing''
   \<and> interpolateContent noInherited [(''name'', JStr ''Jane'')] ''{{name}}'' = Inr ''Jane''
   \<and> interpolateContent noInherited [] ''{{missing}}'' = Inr ''{{missing}}''
   \<and> interpolateContent noInherited [(''name'', JStr ''Jane'')] ''Hi {{name}}!'' = Inr ''Hi Jane!''"
proof -
  have t: "map_of [(''name'', JStr ''Jane'')] ''name'' = Some (JStr ''Jane'')"
    "truthy (JStr ''Jane'')" "toStringJS (JStr ''Jane'') = Inr ''Jane''" by simp_all
  have e: "interpolateContent noInherited [(''name'', JStr ''Jane'')] [] = Inr []"
    "interpolateContent noInherited [] [] = Inr []" by simp_all
  from interpolateContent_truthy_values[OF wordKey_name(1), of noInherited
      "[(''name'', JStr ''Jane'')]" "[]" "[]"] t e
  have a: "interpolateContent noInherited [(''name'', JStr ''Jane'')] ''{{name}}'' = Inr ''Jane''"
    by (simp add: placeholder_def andThen_def)
  have n: "map_of ([] :: obj) ''missing'' = None" "noInherited ''missing'' = None"
    by (simp_all add: noInherited_def)
  from interpolateContent_truthy_values[OF wordKey_name(2), of noInherited "[]" "[]" "[]"] n e
  have b: "interpolateContent noInherited [] ''{{missing}}'' = Inr ''{{missing}}''"
    by (simp add: placeholder_def andThen_def)
  have nb: "CHR ''{'' \<notin> set ''Hi ''" by simp
  have nc: "interpolateContent noInherited [(''name'', JStr ''Jane'')] ''!'' = Inr ''!''"
    by (rule interpolate_no_brace) simp
  from interpolateContent_truthy_values[OF wordKey_name(1), of noInherited
      "[(''name'', JStr ''Jane'')]" "''Hi ''" "''!''"] t nb nc
  have c: "interpolateContent noInherited [(''name'', JStr ''Jane'')] ''Hi {{name}}!'' = Inr ''Hi Jane!''"
    by (simp add: placeholder_def andThen_def)
  from wordKey_name a b c show ?thesis by blast
qed

text \<open>
  C3 (as stated) fails: with the data map \<open>{name: ""}\<close> the name is a key of the
  map, yet \<open>{{name}}\<close> is left as it is and not replaced by the empty string; the
  same holds for the number 0. The callback tests the value with \<open>||\<close>, so a value
  that is falsy is treated like a missing one. And with a name that is an object
  with a \<open>toString\<close> field of its own the function raises a TypeError.
\<close>

theorem empty_value_counterexample:
  "map_of [(''name'', JStr [])] ''name'' = Some (JStr [])
   \<and> interpolateContent noInherited [(''name'', JStr [])] ''{{name}}'' = Inr ''{{name}}''
   \<and> interpolateContent noInherited [(''name'', JStr [])] ''{{name}}'' \<noteq> toStringJS (JStr [])
   \<and> interpolateContent noInherited [(''count'', JNum 0)] ''{{count}}'' = Inr ''{{count}}''
   \<and> interpolateContent noInherited [(''name'', JObj [(''toString'', JNum 1)])] ''{{name}}''
       = Inl TypeError"
  by code_simp

subsection \<open>load\<close>

lemma collect_all_Inr:
  "(\<And>r. r \<in> set rs \<Longrightarrow> \<exists>x. r = Inr x) \<Longrightarrow> \<exists>xs. collect rs = Inr xs"
proof (induction rs)
  case Nil
  then show ?case by simp
next
  case (Cons r rs)
  then obtain x xs where "r = Inr x" "collect rs = Inr xs" by (metis list.set_intros)
  then show ?case by simp
qed

lemma convertibleD: "convertible v \<Longrightarrow> \<exists>t. toStringJS v = Inr t"
  by (auto simp: convertible_def split: sum.splits)

lemma styleDeclarations_plain:
  assumes "list_all (\<lambda>kv. convertible (snd kv)) (entries (get element ''style''))"
  shows "\<exists>t. styleDeclarations element = Inr t"
proof -
  let ?es = "if truthy (get element ''style'') then entries (get element ''style'') else []"
  have "\<exists>xs. collect (map (\<lambda>kv. andThen (toStringJS (snd kv)) (\<lambda>v.
            Inr (kebabCase (fst kv) @ '': '' @ v @ '';''))) ?es) = Inr xs"
  proof (rule collect_all_Inr)
    fix r
    assume "r \<in> set (map (\<lambda>kv. andThen (toStringJS (snd kv)) (\<lambda>v.
            Inr (kebabCase (fst kv) @ '': '' @ v @ '';''))) ?es)"
    then obtain kv where kv: "kv \<in> set ?es"
      and r: "r = andThen (toStringJS (snd kv)) (\<lambda>v. Inr (kebabCase (fst kv) @ '': '' @ v @ '';''))"
      by auto
    from kv assms have "convertible (snd kv)"
      by (auto simp: list_all_iff split: if_splits)
    then obtain t where "toStringJS (snd kv) = Inr t" by (auto dest: convertibleD)
    with r show "\<exists>x. r = Inr x" by (simp add: andThen_def)
  qed
  then show ?thesis by (auto simp: styleDeclarations_def andThen_def)
qed

lemma renderElement_plain:
  assumes "plainElement element" "convertibleData d"
  shows "\<exists>m. renderElement inh d element = Inr m"
proof -
  from assms(1) obtain i x y w h st where c:
    "toStringJS (get element ''id'') = Inr i" "toStringJS (get element ''x'') = Inr x"
    "toStringJS (get element ''y'') = Inr y" "toStringJS (get element ''width'') = Inr w"
    "toStringJS (get element ''height'') = Inr h" "styleDeclarations element = Inr st"
    unfolding plainElement_def
    by (metis convertibleD styleDeclarations_plain)
  from assms(1) have sc: "stringContent element" by (simp add: plainElement_def)
  show ?thesis
  proof (cases "get element ''content''")
    case (JStr s)
    from interpolate_convertible[OF assms(2), of inh "if s \<noteq> [] then s else []"] obtain r
      where "interpolateContent inh d (if s \<noteq> [] then s else []) = Inr r" by blast
    with JStr c show ?thesis
      by (auto simp: renderElement_def andThen_def Let_def)
  qed (use sc c in \<open>auto simp: stringContent_def renderElement_def andThen_def Let_def\<close>)
qed

lemma renderAll_renderable:
  "list_all plainElement els \<Longrightarrow> convertibleData d \<Longrightarrow> \<exists>ms. renderAll inh d els = Inr ms"
proof (induction els)
  case Nil
  then show ?case by simp
next
  case (Cons e els)
  then obtain m ms where "renderElement inh d e = Inr m" "renderAll inh d els = Inr ms"
    using renderElement_plain[of e d inh] by auto
  then show ?case by simp
qed

lemma markup_makeNodes: "map markup (makeNodes n ms) = ms"
proof -
  have "map markup (makeNodes n ms) = map snd (zip [0..<length ms] ms)"
    by (simp add: makeNodes_def case_prod_unfold comp_def)
  then show ?thesis by simp
qed

lemma load_fields:
  "isVisible (load inh s) = False" "data (load inh s) = data s"
  "timers (load inh s) = timers s" "frames (load inh s) = frames s"
  "c_elements (load inh s) = c_elements s" "elementStyles (load inh s) = elementStyles s"
  by (simp_all add: load_def render_def settle_def Let_def split: sum.splits)

lemma load_resolves:
  "renderAll inh (data s) (c_elements s) = Inr ms \<Longrightarrow>
   signals (load inh s) = signals s @ [Resolved OpLoad]
   \<and> innerHTML (load inh s) = page (elementStyles s) ms"
  by (simp add: load_def render_def settle_def Let_def)

lemma load_rejects:
  "renderAll inh (data s) (c_elements s) = Inl e \<Longrightarrow>
   signals (load inh s) = signals s @ [Rejected OpLoad]
   \<and> innerHTML (load inh s) = innerHTML s"
  by (simp add: load_def render_def settle_def Let_def)

lemma load_shown:
  "shown (load inh s) =
    (case renderAll inh (data s) (c_elements s) of
       Inl e \<Rightarrow> (False, data s, innerHTML s, map markup (nodes s))
     | Inr ms \<Rightarrow> (False, data s, page (elementStyles s) ms, filter (\<lambda>m. m \<noteq> []) ms))"
  by (simp add: load_def render_def settle_def shown_def Let_def markup_makeNodes
        split: sum.splits)

lemma load_twice_shown: "shown (load inh (load inh s)) = shown (load inh s)"
proof -
  have 1: "shown (load inh (load inh s)) =
    (case renderAll inh (data s) (c_elements s) of
       Inl e \<Rightarrow> (False, data s, innerHTML (load inh s), map markup (nodes (load inh s)))
     | Inr ms \<Rightarrow> (False, data s, page (elementStyles s) ms, filter (\<lambda>m. m \<noteq> []) ms))"
    by (simp add: load_shown[of inh "load inh s"] load_fields split: sum.splits)
  show ?thesis
  proof (cases "renderAll inh (data s) (c_elements s)")
    case (Inl e)
    have "shown (load inh s) = (False, data s, innerHTML (load inh s), map markup (nodes (load inh s)))"
      by (simp add: shown_def load_fields)
    with 1 Inl show ?thesis by simp
  next
    case (Inr ms)
    with 1 load_shown[of inh s] show ?thesis by simp
  qed
qed

text \<open>
  C4 (as the code has it). From any state, \<open>load()\<close> sets \<open>isVisible\<close> to false,
  leaves the data map as it is (it is not reset), keeps every pending timer and frame
  callback, and renders the elements again with the current data. When the render
  succeeds the call signals completion; when the render raises, the call rejects and
  the shadow root keeps its content. The render succeeds whenever the element
  contents are strings or absent and the ids, geometry, style values and data values
  can be converted to strings. Calling \<open>load()\<close> twice shows the same flag, data and
  shadow root content as calling it once.
\<close>

theorem load_keeps_data:
  "isVisible (load inh s) = False \<and> data (load inh s) = data s
   \<and> timers (load inh s) = timers s \<and> frames (load inh s) = frames s
   \<and> (\<forall>ms. renderAll inh (data s) (c_elements s) = Inr ms \<longrightarrow>
        signals (load inh s) = signals s @ [Resolved OpLoad]
        \<and> innerHTML (load inh s) = page (elementStyles s) ms)
   \<and> (renderAll inh (data s) (c_elements s) = Inl TypeError \<longrightarrow>
        signals (load inh s) = signals s @ [Rejected OpLoad]
        \<and> innerHTML (load inh s) = innerHTML s)
   \<and> (renderable s \<longrightarrow> (\<exists>ms. renderAll inh (data s) (c_elements s) = Inr ms))
   \<and> shown (load inh (load inh s)) = shown (load inh s)"
  using renderAll_renderable[of "c_elements s" "data s" inh]
  by (simp add: load_fields load_twice_shown load_resolves load_rejects renderable_def)

lemma lowerThirdComponent_fields:
  "data lowerThirdComponent = []" "timers lowerThirdComponent = []"
  "frames lowerThirdComponent = []" "signals lowerThirdComponent = []"
  "c_elements lowerThirdComponent = elements lowerThird"
  "c_animationSettings lowerThirdComponent = Some defaultAnimationSettings"
  "nodes lowerThirdComponent = []"
  by (simp_all add: lowerThirdComponent_def newComponent_def)

lemma plain_lowerThird: "list_all plainElement (elements lowerThird)"
  by code_simp

lemma updateAction_fields:
  "data (updateAction inh d s) = assign (assign [] (data s)) d"
  "c_elements (updateAction inh d s) = c_elements s"
  "timers (updateAction inh d s) = timers s"
  by (simp_all add: updateAction_def render_def settle_def Let_def split: sum.splits)

lemma data_updatedLowerThird: "data updatedLowerThird = [(''name'', JStr ''Jane'')]"
  by (simp add: updatedLowerThird_def updateAction_fields lowerThirdComponent_fields assign_def)

theorem load_keeps_data_witness:
  "renderable updatedLowerThird
   \<and> data (load noInherited updatedLowerThird) = [(''name'', JStr ''Jane'')]
   \<and> signals (load noInherited updatedLowerThird)
       = signals updatedLowerThird @ [Resolved OpLoad]"
proof -
  have "convertibleData [(''name'', JStr ''Jane'')]"
    by (simp add: convertibleData_def convertible_def)
  then have r: "renderable updatedLowerThird"
    by (simp add: renderable_def data_updatedLowerThird)
       (simp add: updatedLowerThird_def updateAction_fields lowerThirdComponent_fields
          plain_lowerThird)
  from load_keeps_data[of noInherited updatedLowerThird] r data_updatedLowerThird
  show ?thesis by auto
qed

lemma load_unprintableName:
  "(let s = load noInherited unprintableName in (data s, signals s))
   = ([(''name'', JObj [(''toString'', JNum 1)])], [Rejected OpUpdate, Rejected OpLoad])"
  by code_simp

text \<open>
  C4 (as stated) fails: after \<open>updateAction({name: "Jane"})\<close> the data map of the
  lower third holds \<open>name\<close>, and it still does after \<open>load()\<close>. And after an
  update with a name that cannot be converted to a string, \<open>load()\<close> rejects
  instead of signalling completion.
\<close>

theorem load_data_counterexample:
  "data updatedLowerThird = [(''name'', JStr ''Jane'')]
   \<and> data (load noInherited updatedLowerThird) = [(''name'', JStr ''Jane'')]
   \<and> data (load noInherited updatedLowerThird) \<noteq> []
   \<and> signals (load noInherited unprintableName) = [Rejected OpUpdate, Rejected OpLoad]"
  using load_unprintableName by (simp add: load_fields data_updatedLowerThird Let_def)

subsection \<open>Timers of superseded transitions\<close>

















end
